theory Spec2Isabelle
  imports Complex_Main
begin

section \<open>Inventory reservation (db.py, reserve\_stock)\<close>

text \<open>
  The table \<open>inventory\<close> has the primary key \<open>product_id\<close> and one nullable integer
  column \<open>quantity\<close>. A table with a primary key and one further column is a finite map
  from the key to that column: \<open>None\<close> means that no row exists, \<open>Some None\<close> a row whose
  quantity is NULL, \<open>Some (Some n)\<close> a row with quantity \<open>n\<close>. Python integers are
  unbounded, so quantities are of type \<open>int\<close>.
\<close>

type_synonym inventory = "string \<rightharpoonup> int option"

text \<open>
  The statement \<open>stmt\<close> of \<open>reserve_stock\<close>:
  \<^verbatim>\<open>UPDATE inventory SET quantity = quantity - :q WHERE product_id = :p AND quantity >= :q\<close>.
  It is executed as one statement; the result is the new table and \<open>rowcount\<close>. A NULL
  quantity does not satisfy the comparison.
\<close>

definition execute_stmt :: "inventory \<Rightarrow> string \<Rightarrow> int \<Rightarrow> inventory \<times> nat" where
  "execute_stmt tab product_id quantity =
     (case tab product_id of
        Some (Some stored) \<Rightarrow>
          if stored \<ge> quantity
          then (tab(product_id \<mapsto> Some (stored - quantity)), 1)
          else (tab, 0)
      | _ \<Rightarrow> (tab, 0))"

text \<open>
  \<open>reserve_stock(session, product_id, quantity, fallback_quantity=None)\<close>. The session is
  the inventory table as the transaction sees it; the function returns the table it
  leaves behind together with its boolean result.
\<close>

definition reserve_stock ::
  "inventory \<Rightarrow> string \<Rightarrow> int \<Rightarrow> int option \<Rightarrow> inventory \<times> bool" where
  "reserve_stock tab product_id quantity fallback_quantity =
     (let (tab1, rowcount) = execute_stmt tab product_id quantity in
      if rowcount > 0 then (tab1, True)
      else case fallback_quantity of
        None \<Rightarrow> (tab1, False)
      | Some fb \<Rightarrow>
          let tab2 = (case tab1 product_id of
                        None \<Rightarrow> tab1(product_id \<mapsto> Some fb)
                      | Some None \<Rightarrow> tab1(product_id \<mapsto> Some fb)
                      | Some (Some _) \<Rightarrow> tab1);
              (tab3, rowcount2) = execute_stmt tab2 product_id quantity
          in (tab3, rowcount2 > 0))"

text \<open>
  A sequence of reservation calls against one product with the same quantity, one
  (optional) fallback quantity per call. The result is the table after the last call
  and the list of the calls' results.
\<close>

fun reserve_seq ::
  "inventory \<Rightarrow> string \<Rightarrow> int \<Rightarrow> int option list \<Rightarrow> inventory \<times> bool list" where
  "reserve_seq tab product_id quantity [] = (tab, [])"
| "reserve_seq tab product_id quantity (fb # fbs) =
     (let (tab1, ok) = reserve_stock tab product_id quantity fb;
          (tab2, oks) = reserve_seq tab1 product_id quantity fbs
      in (tab2, ok # oks))"

definition successes :: "bool list \<Rightarrow> nat" where
  "successes oks = length (filter (\<lambda>b. b) oks)"

section \<open>Agent runs and cart drafts (routes/agent\_state.py)\<close>

subsection \<open>Values\<close>

text \<open>
  Columns and payload fields of type \<open>JSON\<close> / \<open>Any\<close> hold a decoded JSON document. The
  routes only store and return such a value; a payload field that is JSON \<open>null\<close> is
  Python's \<open>None\<close> and is modelled by \<open>None\<close> of the option type.
\<close>

datatype json =
    JBool bool
  | JInt int
  | JStr string
  | JList "json list"
  | JDict "(string \<times> json) list"

text \<open>
  Columns of type \<open>Float\<close> are only stored and returned, never computed with; they are
  modelled by \<open>real\<close>.
\<close>

type_synonym py_float = real

datatype AgentRunState =
    DISCOVER_MERCHANT
  | CHECK_CAPABILITIES
  | RESOLVE_INGREDIENTS
  | BUILD_CART_DRAFT
  | QUOTE_CART
  | AWAITING_APPROVAL
  | CHECKOUT
  | ORDER_CREATED
  | ORDER_TRACKING
  | FAILED

text \<open>The member's \<open>.value\<close>, the string stored in the column \<open>state\<close>.\<close>

fun state_value :: "AgentRunState \<Rightarrow> string" where
  "state_value DISCOVER_MERCHANT = ''DISCOVER_MERCHANT''"
| "state_value CHECK_CAPABILITIES = ''CHECK_CAPABILITIES''"
| "state_value RESOLVE_INGREDIENTS = ''RESOLVE_INGREDIENTS''"
| "state_value BUILD_CART_DRAFT = ''BUILD_CART_DRAFT''"
| "state_value QUOTE_CART = ''QUOTE_CART''"
| "state_value AWAITING_APPROVAL = ''AWAITING_APPROVAL''"
| "state_value CHECKOUT = ''CHECKOUT''"
| "state_value ORDER_CREATED = ''ORDER_CREATED''"
| "state_value ORDER_TRACKING = ''ORDER_TRACKING''"
| "state_value FAILED = ''FAILED''"

text \<open>
  Python's \<open>x or d\<close> for an optional string \<open>x\<close>: \<open>None\<close> and the empty string are both
  falsy, so both give \<open>d\<close>. It is written \<open>payload.id or str(uuid.uuid4())\<close> and
  \<open>payload.updated_at or now_iso\<close> in the source.
\<close>

definition py_or :: "string option \<Rightarrow> string \<Rightarrow> string" where
  "py_or x d = (case x of None \<Rightarrow> d | Some s \<Rightarrow> if s = [] then d else s)"

text \<open>
  Whether \<open>x or str(uuid.uuid4())\<close> evaluates its right operand, that is, whether it
  draws a fresh identifier.
\<close>

definition falsy :: "string option \<Rightarrow> bool" where
  "falsy x = (case x of None \<Rightarrow> True | Some s \<Rightarrow> s = [])"

subsection \<open>Payloads (the pydantic models)\<close>

record AgentRunPayload =
  arp_id :: "string option"
  arp_user_id :: "string option"
  arp_device_id :: "string option"
  arp_recipe_id :: "string option"
  arp_merchant_base_url :: "string option"
  arp_store_id :: "string option"
  arp_created_at :: "string option"
  arp_updated_at :: "string option"
  arp_state :: "AgentRunState option"
  arp_failure_code :: "string option"
  arp_failure_detail :: "string option"
  arp_cart_draft_id :: "string option"
  arp_order_id :: "string option"

record CartDraftPayload =
  cdp_id :: "string option"
  cdp_agent_run_id :: "string option"
  cdp_recipe_id :: "string option"
  cdp_servings :: "int option"
  cdp_pantry_items_removed :: "json option"
  cdp_policies :: "json option"
  cdp_quote_summary :: "json option"
  cdp_checkout_session_id :: "string option"
  cdp_cart_hash :: "string option"
  cdp_quote_hash :: "string option"
  cdp_created_at :: "string option"
  cdp_updated_at :: "string option"

record CartDraftAlternativePayload =
  altp_id :: "string option"
  altp_rank :: int
  altp_sku_json :: "json option"
  altp_score_breakdown_json :: "json option"
  altp_reason :: "string option"
  altp_confidence :: "py_float option"

record CartDraftLineItemPayload =
  lip_id :: "string option"
  lip_ingredient_key :: string
  lip_canonical_ingredient_json :: "json option"
  lip_primary_sku_json :: "json option"
  lip_quantity :: py_float
  lip_unit :: "string option"
  lip_confidence :: "py_float option"
  lip_chosen_reason :: "string option"
  lip_substitution_policy_json :: "json option"
  lip_line_total_cents :: "int option"
  lip_alternatives :: "CartDraftAlternativePayload list"

record CartDraftUpsertPayload =
  up_cart :: CartDraftPayload
  up_line_items :: "CartDraftLineItemPayload list"

subsection \<open>Rows (the declarative models of db.py)\<close>

text \<open>
  The columns \<open>created_at\<close>, \<open>updated_at\<close> and \<open>state\<close> are written by these routes only,
  and always with a string.
\<close>

record AgentRun =
  ar_id :: string
  ar_user_id :: "string option"
  ar_device_id :: "string option"
  ar_recipe_id :: "string option"
  ar_merchant_base_url :: "string option"
  ar_store_id :: "string option"
  ar_created_at :: string
  ar_updated_at :: string
  ar_state :: string
  ar_failure_code :: "string option"
  ar_failure_detail :: "string option"
  ar_cart_draft_id :: "string option"
  ar_order_id :: "string option"

record CartDraft =
  cd_id :: string
  cd_agent_run_id :: "string option"
  cd_recipe_id :: "string option"
  cd_servings :: "int option"
  cd_pantry_items_removed :: "json option"
  cd_policies :: "json option"
  cd_quote_summary :: "json option"
  cd_checkout_session_id :: "string option"
  cd_cart_hash :: "string option"
  cd_quote_hash :: "string option"
  cd_created_at :: string
  cd_updated_at :: string

record CartDraftLineItem =
  li_id :: string
  li_cart_draft_id :: string
  li_ingredient_key :: string
  li_canonical_ingredient_json :: "json option"
  li_primary_sku_json :: "json option"
  li_quantity :: py_float
  li_unit :: "string option"
  li_confidence :: "py_float option"
  li_chosen_reason :: "string option"
  li_substitution_policy_json :: "json option"
  li_line_total_cents :: "int option"

record CartDraftAlternative =
  cda_id :: string
  cda_line_item_id :: string
  cda_rank :: int
  cda_sku_json :: "json option"
  cda_score_breakdown_json :: "json option"
  cda_reason :: "string option"
  cda_confidence :: "py_float option"

subsection \<open>The transactional store and its data access helpers\<close>

text \<open>
  A table is the list of its rows in insertion order. Every model declares
  \<open>id = Column(String, primary_key=True)\<close>: an INSERT of a row whose \<open>id\<close> is already in
  the table fails with \<open>IntegrityError\<close>. The foreign keys of the models are not enforced:
  SQLite enforces them only under \<open>PRAGMA foreign_keys=ON\<close>, and \<open>init_dbs\<close> sets
  \<open>journal_mode=WAL\<close> only.
\<close>

record store =
  agent_runs :: "AgentRun list"
  cart_drafts :: "CartDraft list"
  cart_draft_line_items :: "CartDraftLineItem list"
  cart_draft_alternatives :: "CartDraftAlternative list"

datatype error =
    HTTPException nat string
  | IntegrityError
  | InvalidRequestError

text \<open>
  The helpers of db.py carry the prefix \<open>db_\<close> here, since the routes
  \<open>get_agent_run\<close> and \<open>get_cart_draft\<close> of agent\_state.py have the same names.
\<close>

definition db_get_agent_run :: "store \<Rightarrow> string \<Rightarrow> AgentRun option" where
  "db_get_agent_run session agent_run_id =
     find (\<lambda>r. ar_id r = agent_run_id) (agent_runs session)"

definition db_get_cart_draft :: "store \<Rightarrow> string \<Rightarrow> CartDraft option" where
  "db_get_cart_draft session cart_draft_id =
     find (\<lambda>r. cd_id r = cart_draft_id) (cart_drafts session)"

definition db_get_cart_draft_line_items :: "store \<Rightarrow> string \<Rightarrow> CartDraftLineItem list" where
  "db_get_cart_draft_line_items session cart_draft_id =
     filter (\<lambda>r. li_cart_draft_id r = cart_draft_id) (cart_draft_line_items session)"

definition db_get_cart_draft_alternatives :: "store \<Rightarrow> string \<Rightarrow> CartDraftAlternative list" where
  "db_get_cart_draft_alternatives session line_item_id =
     filter (\<lambda>r. cda_line_item_id r = line_item_id) (cart_draft_alternatives session)"

definition db_delete_cart_draft_line_items :: "store \<Rightarrow> string \<Rightarrow> store" where
  "db_delete_cart_draft_line_items session cart_draft_id =
     session\<lparr>cart_draft_line_items :=
       filter (\<lambda>r. li_cart_draft_id r \<noteq> cart_draft_id) (cart_draft_line_items session)\<rparr>"

text \<open>
  \<open>session.add(row)\<close> followed by the flush: the INSERT. The rows of one table are
  flushed in the order in which they were added, and the tables are separate lists, so
  inserting at the \<open>add\<close> gives the table that the flush at \<open>commit\<close> gives.
\<close>

definition add_agent_run :: "store \<Rightarrow> AgentRun \<Rightarrow> error + store" where
  "add_agent_run session row =
     (if ar_id row \<in> set (map ar_id (agent_runs session)) then Inl IntegrityError
      else Inr (session\<lparr>agent_runs := agent_runs session @ [row]\<rparr>))"

definition add_cart_draft :: "store \<Rightarrow> CartDraft \<Rightarrow> error + store" where
  "add_cart_draft session row =
     (if cd_id row \<in> set (map cd_id (cart_drafts session)) then Inl IntegrityError
      else Inr (session\<lparr>cart_drafts := cart_drafts session @ [row]\<rparr>))"

definition add_line_item :: "store \<Rightarrow> CartDraftLineItem \<Rightarrow> error + store" where
  "add_line_item session row =
     (if li_id row \<in> set (map li_id (cart_draft_line_items session)) then Inl IntegrityError
      else Inr (session\<lparr>cart_draft_line_items := cart_draft_line_items session @ [row]\<rparr>))"

definition add_alternative :: "store \<Rightarrow> CartDraftAlternative \<Rightarrow> error + store" where
  "add_alternative session row =
     (if cda_id row \<in> set (map cda_id (cart_draft_alternatives session)) then Inl IntegrityError
      else Inr (session\<lparr>cart_draft_alternatives := cart_draft_alternatives session @ [row]\<rparr>))"

text \<open>
  The UPDATE that the commit issues for a loaded row whose attributes were assigned:
  the row with that primary key is replaced.
\<close>

definition save_agent_run :: "store \<Rightarrow> AgentRun \<Rightarrow> store" where
  "save_agent_run session row =
     session\<lparr>agent_runs :=
       map (\<lambda>r. if ar_id r = ar_id row then row else r) (agent_runs session)\<rparr>"

definition save_cart_draft :: "store \<Rightarrow> CartDraft \<Rightarrow> store" where
  "save_cart_draft session row =
     session\<lparr>cart_drafts :=
       map (\<lambda>r. if cd_id r = cd_id row then row else r) (cart_drafts session)\<rparr>"

text \<open>
  \<open>session.refresh(row)\<close> reads the row with that primary key again, and raises
  \<open>InvalidRequestError\<close> when it is gone.
\<close>

definition refresh_agent_run :: "store \<Rightarrow> string \<Rightarrow> error + AgentRun" where
  "refresh_agent_run session agent_run_id =
     (case db_get_agent_run session agent_run_id of
        None \<Rightarrow> Inl InvalidRequestError
      | Some row \<Rightarrow> Inr row)"

definition refresh_cart_draft :: "store \<Rightarrow> string \<Rightarrow> error + CartDraft" where
  "refresh_cart_draft session cart_draft_id =
     (case db_get_cart_draft session cart_draft_id of
        None \<Rightarrow> Inl InvalidRequestError
      | Some row \<Rightarrow> Inr row)"

subsection \<open>Agent run routes\<close>

text \<open>
  The routes take the things they read from outside as arguments: \<open>uuid4\<close> is the
  string that \<open>str(uuid.uuid4())\<close> returns when it is called, \<open>now_iso\<close> the string that
  \<open>_now_iso()\<close> returns. A route returns the store it leaves behind and either the
  error it raises or the record it serialises. A request that raises is rolled back:
  it leaves the store it was given.
\<close>

definition upsert_agent_run ::
  "string \<Rightarrow> string \<Rightarrow> AgentRunPayload \<Rightarrow> store \<Rightarrow> store \<times> (error + AgentRun)" where
  "upsert_agent_run uuid4 now_iso payload session =
     (let agent_run_id = py_or (arp_id payload) uuid4 in
      case db_get_agent_run session agent_run_id of
        Some existing \<Rightarrow>
          (let existing = (case arp_user_id payload of
                 None \<Rightarrow> existing | Some v \<Rightarrow> existing\<lparr>ar_user_id := Some v\<rparr>);
               existing = (case arp_device_id payload of
                 None \<Rightarrow> existing | Some v \<Rightarrow> existing\<lparr>ar_device_id := Some v\<rparr>);
               existing = (case arp_recipe_id payload of
                 None \<Rightarrow> existing | Some v \<Rightarrow> existing\<lparr>ar_recipe_id := Some v\<rparr>);
               existing = (case arp_merchant_base_url payload of
                 None \<Rightarrow> existing | Some v \<Rightarrow> existing\<lparr>ar_merchant_base_url := Some v\<rparr>);
               existing = (case arp_store_id payload of
                 None \<Rightarrow> existing | Some v \<Rightarrow> existing\<lparr>ar_store_id := Some v\<rparr>);
               existing = (case arp_state payload of
                 None \<Rightarrow> existing | Some v \<Rightarrow> existing\<lparr>ar_state := state_value v\<rparr>);
               existing = (case arp_failure_code payload of
                 None \<Rightarrow> existing | Some v \<Rightarrow> existing\<lparr>ar_failure_code := Some v\<rparr>);
               existing = (case arp_failure_detail payload of
                 None \<Rightarrow> existing | Some v \<Rightarrow> existing\<lparr>ar_failure_detail := Some v\<rparr>);
               existing = (case arp_cart_draft_id payload of
                 None \<Rightarrow> existing | Some v \<Rightarrow> existing\<lparr>ar_cart_draft_id := Some v\<rparr>);
               existing = (case arp_order_id payload of
                 None \<Rightarrow> existing | Some v \<Rightarrow> existing\<lparr>ar_order_id := Some v\<rparr>);
               existing = existing\<lparr>ar_updated_at := py_or (arp_updated_at payload) now_iso\<rparr>;
               committed = save_agent_run session existing
           in case refresh_agent_run committed (ar_id existing) of
                Inl e \<Rightarrow> (committed, Inl e)
              | Inr row \<Rightarrow> (committed, Inr row))
      | None \<Rightarrow>
          (let agent_run = \<lparr>
                 ar_id = agent_run_id,
                 ar_user_id = arp_user_id payload,
                 ar_device_id = arp_device_id payload,
                 ar_recipe_id = arp_recipe_id payload,
                 ar_merchant_base_url = arp_merchant_base_url payload,
                 ar_store_id = arp_store_id payload,
                 ar_created_at = py_or (arp_created_at payload) now_iso,
                 ar_updated_at = py_or (arp_updated_at payload) now_iso,
                 ar_state = (case arp_state payload of
                               Some v \<Rightarrow> state_value v
                             | None \<Rightarrow> state_value DISCOVER_MERCHANT),
                 ar_failure_code = arp_failure_code payload,
                 ar_failure_detail = arp_failure_detail payload,
                 ar_cart_draft_id = arp_cart_draft_id payload,
                 ar_order_id = arp_order_id payload\<rparr>
           in case add_agent_run session agent_run of
                Inl e \<Rightarrow> (session, Inl e)
              | Inr committed \<Rightarrow>
                  (case refresh_agent_run committed (ar_id agent_run) of
                     Inl e \<Rightarrow> (committed, Inl e)
                   | Inr row \<Rightarrow> (committed, Inr row))))"

definition update_agent_run ::
  "string \<Rightarrow> string \<Rightarrow> AgentRunPayload \<Rightarrow> store \<Rightarrow> store \<times> (error + AgentRun)" where
  "update_agent_run now_iso agent_run_id payload session =
     (case db_get_agent_run session agent_run_id of
        None \<Rightarrow> (session, Inl (HTTPException 404 ''Agent run not found.''))
      | Some existing \<Rightarrow>
          (let existing = (case arp_user_id payload of
                 None \<Rightarrow> existing | Some v \<Rightarrow> existing\<lparr>ar_user_id := Some v\<rparr>);
               existing = (case arp_device_id payload of
                 None \<Rightarrow> existing | Some v \<Rightarrow> existing\<lparr>ar_device_id := Some v\<rparr>);
               existing = (case arp_recipe_id payload of
                 None \<Rightarrow> existing | Some v \<Rightarrow> existing\<lparr>ar_recipe_id := Some v\<rparr>);
               existing = (case arp_merchant_base_url payload of
                 None \<Rightarrow> existing | Some v \<Rightarrow> existing\<lparr>ar_merchant_base_url := Some v\<rparr>);
               existing = (case arp_store_id payload of
                 None \<Rightarrow> existing | Some v \<Rightarrow> existing\<lparr>ar_store_id := Some v\<rparr>);
               existing = (case arp_state payload of
                 None \<Rightarrow> existing | Some v \<Rightarrow> existing\<lparr>ar_state := state_value v\<rparr>);
               existing = (case arp_failure_code payload of
                 None \<Rightarrow> existing | Some v \<Rightarrow> existing\<lparr>ar_failure_code := Some v\<rparr>);
               existing = (case arp_failure_detail payload of
                 None \<Rightarrow> existing | Some v \<Rightarrow> existing\<lparr>ar_failure_detail := Some v\<rparr>);
               existing = (case arp_cart_draft_id payload of
                 None \<Rightarrow> existing | Some v \<Rightarrow> existing\<lparr>ar_cart_draft_id := Some v\<rparr>);
               existing = (case arp_order_id payload of
                 None \<Rightarrow> existing | Some v \<Rightarrow> existing\<lparr>ar_order_id := Some v\<rparr>);
               existing = existing\<lparr>ar_updated_at := py_or (arp_updated_at payload) now_iso\<rparr>;
               committed = save_agent_run session existing
           in case refresh_agent_run committed (ar_id existing) of
                Inl e \<Rightarrow> (committed, Inl e)
              | Inr row \<Rightarrow> (committed, Inr row)))"

definition get_agent_run :: "string \<Rightarrow> store \<Rightarrow> store \<times> (error + AgentRun)" where
  "get_agent_run agent_run_id session =
     (case db_get_agent_run session agent_run_id of
        None \<Rightarrow> (session, Inl (HTTPException 404 ''Agent run not found.''))
      | Some agent_run \<Rightarrow> (session, Inr agent_run))"

subsection \<open>Cart draft routes\<close>

text \<open>
  A request for a cart draft may call \<open>uuid.uuid4()\<close> several times: \<open>uuid4 k\<close> is the
  string that call number \<open>k\<close> of the request returns, and the functions pass the number
  of calls made so far along with the session.

  The inner loop of \<open>_replace_cart_line_items\<close>, over \<open>line.alternatives\<close>.
\<close>

fun add_alternatives ::
  "(nat \<Rightarrow> string) \<Rightarrow> string \<Rightarrow> CartDraftAlternativePayload list \<Rightarrow> store \<Rightarrow> nat
   \<Rightarrow> error + (store \<times> nat)" where
  "add_alternatives uuid4 line_id [] session n = Inr (session, n)"
| "add_alternatives uuid4 line_id (alt # alts) session n =
     (let alt_id = py_or (altp_id alt) (uuid4 n);
          n = (if falsy (altp_id alt) then Suc n else n)
      in case add_alternative session \<lparr>
                cda_id = alt_id,
                cda_line_item_id = line_id,
                cda_rank = altp_rank alt,
                cda_sku_json = altp_sku_json alt,
                cda_score_breakdown_json = altp_score_breakdown_json alt,
                cda_reason = altp_reason alt,
                cda_confidence = altp_confidence alt\<rparr> of
           Inl e \<Rightarrow> Inl e
         | Inr session \<Rightarrow> add_alternatives uuid4 line_id alts session n)"

text \<open>The outer loop of \<open>_replace_cart_line_items\<close>, over \<open>line_items\<close>.\<close>

fun add_line_items ::
  "(nat \<Rightarrow> string) \<Rightarrow> string \<Rightarrow> CartDraftLineItemPayload list \<Rightarrow> store \<Rightarrow> nat
   \<Rightarrow> CartDraftLineItem list \<Rightarrow> error + (store \<times> nat \<times> CartDraftLineItem list)" where
  "add_line_items uuid4 cart_draft_id [] session n persisted = Inr (session, n, persisted)"
| "add_line_items uuid4 cart_draft_id (line # lines) session n persisted =
     (let line_id = py_or (lip_id line) (uuid4 n);
          n = (if falsy (lip_id line) then Suc n else n);
          row = \<lparr>
            li_id = line_id,
            li_cart_draft_id = cart_draft_id,
            li_ingredient_key = lip_ingredient_key line,
            li_canonical_ingredient_json = lip_canonical_ingredient_json line,
            li_primary_sku_json = lip_primary_sku_json line,
            li_quantity = lip_quantity line,
            li_unit = lip_unit line,
            li_confidence = lip_confidence line,
            li_chosen_reason = lip_chosen_reason line,
            li_substitution_policy_json = lip_substitution_policy_json line,
            li_line_total_cents = lip_line_total_cents line\<rparr>
      in case add_line_item session row of
           Inl e \<Rightarrow> Inl e
         | Inr session \<Rightarrow>
             (case add_alternatives uuid4 line_id (lip_alternatives line) session n of
                Inl e \<Rightarrow> Inl e
              | Inr (session, n) \<Rightarrow>
                  add_line_items uuid4 cart_draft_id lines session n (persisted @ [row])))"

text \<open>
  \<open>_replace_cart_line_items\<close> (an Isabelle name cannot begin with an underscore).
\<close>

definition replace_cart_line_items ::
  "(nat \<Rightarrow> string) \<Rightarrow> store \<Rightarrow> nat \<Rightarrow> string \<Rightarrow> CartDraftLineItemPayload list
   \<Rightarrow> error + (store \<times> nat \<times> CartDraftLineItem list)" where
  "replace_cart_line_items uuid4 session n cart_draft_id line_items =
     (let existing_items = db_get_cart_draft_line_items session cart_draft_id;
          existing_ids = map li_id existing_items;
          session =
            (if existing_ids \<noteq> []
             then session\<lparr>cart_draft_alternatives :=
                    filter (\<lambda>a. cda_line_item_id a \<notin> set existing_ids)
                      (cart_draft_alternatives session)\<rparr>
             else session);
          session = db_delete_cart_draft_line_items session cart_draft_id
      in add_line_items uuid4 cart_draft_id line_items session n [])"

text \<open>
  The response of the three cart draft routes: the line items of the draft are read
  again, \<open>alternatives_map\<close> is filled with the alternatives of each, and the cart is
  returned with every line item and the entry of the map for it
  (\<open>alternatives_map.get(line.id, [])\<close>).
\<close>

type_synonym cart_response =
  "CartDraft \<times> (CartDraftLineItem \<times> CartDraftAlternative list) list"

definition read_cart_draft :: "store \<Rightarrow> CartDraft \<Rightarrow> string \<Rightarrow> cart_response" where
  "read_cart_draft session existing cart_id =
     (let line_items = db_get_cart_draft_line_items session cart_id;
          alternatives_map =
            fold (\<lambda>line m. m(li_id line \<mapsto> db_get_cart_draft_alternatives session (li_id line)))
              line_items Map.empty
      in (existing,
          map (\<lambda>line. (line, case alternatives_map (li_id line) of
                                 Some alternatives \<Rightarrow> alternatives
                               | None \<Rightarrow> []))
            line_items))"

definition upsert_cart_draft ::
  "(nat \<Rightarrow> string) \<Rightarrow> string \<Rightarrow> CartDraftUpsertPayload \<Rightarrow> store
   \<Rightarrow> store \<times> (error + cart_response)" where
  "upsert_cart_draft uuid4 now_iso payload session =
     (let cart_payload = up_cart payload;
          cart_id = py_or (cdp_id cart_payload) (uuid4 0);
          n = (if falsy (cdp_id cart_payload) then 1 else 0)
      in case db_get_cart_draft session cart_id of
        Some existing \<Rightarrow>
          (let existing = (case cdp_agent_run_id cart_payload of
                 None \<Rightarrow> existing | Some v \<Rightarrow> existing\<lparr>cd_agent_run_id := Some v\<rparr>);
               existing = (case cdp_recipe_id cart_payload of
                 None \<Rightarrow> existing | Some v \<Rightarrow> existing\<lparr>cd_recipe_id := Some v\<rparr>);
               existing = (case cdp_servings cart_payload of
                 None \<Rightarrow> existing | Some v \<Rightarrow> existing\<lparr>cd_servings := Some v\<rparr>);
               existing = (case cdp_pantry_items_removed cart_payload of
                 None \<Rightarrow> existing | Some v \<Rightarrow> existing\<lparr>cd_pantry_items_removed := Some v\<rparr>);
               existing = (case cdp_policies cart_payload of
                 None \<Rightarrow> existing | Some v \<Rightarrow> existing\<lparr>cd_policies := Some v\<rparr>);
               existing = (case cdp_quote_summary cart_payload of
                 None \<Rightarrow> existing | Some v \<Rightarrow> existing\<lparr>cd_quote_summary := Some v\<rparr>);
               existing = (case cdp_checkout_session_id cart_payload of
                 None \<Rightarrow> existing | Some v \<Rightarrow> existing\<lparr>cd_checkout_session_id := Some v\<rparr>);
               existing = (case cdp_cart_hash cart_payload of
                 None \<Rightarrow> existing | Some v \<Rightarrow> existing\<lparr>cd_cart_hash := Some v\<rparr>);
               existing = (case cdp_quote_hash cart_payload of
                 None \<Rightarrow> existing | Some v \<Rightarrow> existing\<lparr>cd_quote_hash := Some v\<rparr>);
               existing = existing\<lparr>cd_updated_at := py_or (cdp_updated_at cart_payload) now_iso\<rparr>
           in case replace_cart_line_items uuid4 (save_cart_draft session existing) n cart_id
                     (up_line_items payload) of
                Inl e \<Rightarrow> (session, Inl e)
              | Inr (committed, _, _) \<Rightarrow>
                  (case refresh_cart_draft committed (cd_id existing) of
                     Inl e \<Rightarrow> (committed, Inl e)
                   | Inr existing \<Rightarrow>
                       (committed, Inr (read_cart_draft committed existing cart_id))))
      | None \<Rightarrow>
          (let cart = \<lparr>
                 cd_id = cart_id,
                 cd_agent_run_id = cdp_agent_run_id cart_payload,
                 cd_recipe_id = cdp_recipe_id cart_payload,
                 cd_servings = cdp_servings cart_payload,
                 cd_pantry_items_removed = cdp_pantry_items_removed cart_payload,
                 cd_policies = cdp_policies cart_payload,
                 cd_quote_summary = cdp_quote_summary cart_payload,
                 cd_checkout_session_id = cdp_checkout_session_id cart_payload,
                 cd_cart_hash = cdp_cart_hash cart_payload,
                 cd_quote_hash = cdp_quote_hash cart_payload,
                 cd_created_at = py_or (cdp_created_at cart_payload) now_iso,
                 cd_updated_at = py_or (cdp_updated_at cart_payload) now_iso\<rparr>
           in case add_cart_draft session cart of
                Inl e \<Rightarrow> (session, Inl e)
              | Inr flushed \<Rightarrow>
                  (case replace_cart_line_items uuid4 flushed n cart_id (up_line_items payload) of
                     Inl e \<Rightarrow> (session, Inl e)
                   | Inr (committed, _, _) \<Rightarrow>
                       (case refresh_cart_draft committed (cd_id cart) of
                          Inl e \<Rightarrow> (committed, Inl e)
                        | Inr existing \<Rightarrow>
                            (committed, Inr (read_cart_draft committed existing cart_id))))))"

definition update_cart_draft ::
  "string \<Rightarrow> string \<Rightarrow> CartDraftPayload \<Rightarrow> store \<Rightarrow> store \<times> (error + cart_response)" where
  "update_cart_draft now_iso cart_draft_id payload session =
     (case db_get_cart_draft session cart_draft_id of
        None \<Rightarrow> (session, Inl (HTTPException 404 ''Cart draft not found.''))
      | Some existing \<Rightarrow>
          (let existing = (case cdp_agent_run_id payload of
                 None \<Rightarrow> existing | Some v \<Rightarrow> existing\<lparr>cd_agent_run_id := Some v\<rparr>);
               existing = (case cdp_recipe_id payload of
                 None \<Rightarrow> existing | Some v \<Rightarrow> existing\<lparr>cd_recipe_id := Some v\<rparr>);
               existing = (case cdp_servings payload of
                 None \<Rightarrow> existing | Some v \<Rightarrow> existing\<lparr>cd_servings := Some v\<rparr>);
               existing = (case cdp_pantry_items_removed payload of
                 None \<Rightarrow> existing | Some v \<Rightarrow> existing\<lparr>cd_pantry_items_removed := Some v\<rparr>);
               existing = (case cdp_policies payload of
                 None \<Rightarrow> existing | Some v \<Rightarrow> existing\<lparr>cd_policies := Some v\<rparr>);
               existing = (case cdp_quote_summary payload of
                 None \<Rightarrow> existing | Some v \<Rightarrow> existing\<lparr>cd_quote_summary := Some v\<rparr>);
               existing = (case cdp_checkout_session_id payload of
                 None \<Rightarrow> existing | Some v \<Rightarrow> existing\<lparr>cd_checkout_session_id := Some v\<rparr>);
               existing = (case cdp_cart_hash payload of
                 None \<Rightarrow> existing | Some v \<Rightarrow> existing\<lparr>cd_cart_hash := Some v\<rparr>);
               existing = (case cdp_quote_hash payload of
                 None \<Rightarrow> existing | Some v \<Rightarrow> existing\<lparr>cd_quote_hash := Some v\<rparr>);
               existing = existing\<lparr>cd_updated_at := py_or (cdp_updated_at payload) now_iso\<rparr>;
               committed = save_cart_draft session existing
           in case refresh_cart_draft committed (cd_id existing) of
                Inl e \<Rightarrow> (committed, Inl e)
              | Inr existing \<Rightarrow>
                  (committed, Inr (read_cart_draft committed existing cart_draft_id))))"

definition get_cart_draft :: "string \<Rightarrow> store \<Rightarrow> store \<times> (error + cart_response)" where
  "get_cart_draft cart_draft_id session =
     (case db_get_cart_draft session cart_draft_id of
        None \<Rightarrow> (session, Inl (HTTPException 404 ''Cart draft not found.''))
      | Some cart \<Rightarrow> (session, Inr (read_cart_draft session cart cart_draft_id)))"

subsection \<open>Closed forms of the routes\<close>

text \<open>
  The row that the sequence of conditional assignments of \<open>upsert_agent_run\<close> and
  \<open>update_agent_run\<close> leaves in \<open>existing\<close>, written as one record update, and the row
  that \<open>upsert_agent_run\<close> constructs when it creates. The lemmas
  \<open>update_agent_run_existing\<close> and \<open>upsert_agent_run_new\<close> prove that the routes compute
  them.
\<close>

definition merge_patch_agent_run :: "string \<Rightarrow> AgentRunPayload \<Rightarrow> AgentRun \<Rightarrow> AgentRun" where
  "merge_patch_agent_run now_iso payload e = e\<lparr>
     ar_user_id := (case arp_user_id payload of None \<Rightarrow> ar_user_id e | Some v \<Rightarrow> Some v),
     ar_device_id := (case arp_device_id payload of None \<Rightarrow> ar_device_id e | Some v \<Rightarrow> Some v),
     ar_recipe_id := (case arp_recipe_id payload of None \<Rightarrow> ar_recipe_id e | Some v \<Rightarrow> Some v),
     ar_merchant_base_url := (case arp_merchant_base_url payload of None \<Rightarrow> ar_merchant_base_url e | Some v \<Rightarrow> Some v),
     ar_store_id := (case arp_store_id payload of None \<Rightarrow> ar_store_id e | Some v \<Rightarrow> Some v),
     ar_state := (case arp_state payload of None \<Rightarrow> ar_state e | Some v \<Rightarrow> state_value v),
     ar_failure_code := (case arp_failure_code payload of None \<Rightarrow> ar_failure_code e | Some v \<Rightarrow> Some v),
     ar_failure_detail := (case arp_failure_detail payload of None \<Rightarrow> ar_failure_detail e | Some v \<Rightarrow> Some v),
     ar_cart_draft_id := (case arp_cart_draft_id payload of None \<Rightarrow> ar_cart_draft_id e | Some v \<Rightarrow> Some v),
     ar_order_id := (case arp_order_id payload of None \<Rightarrow> ar_order_id e | Some v \<Rightarrow> Some v),
     ar_updated_at := py_or (arp_updated_at payload) now_iso\<rparr>"

definition created_agent_run :: "string \<Rightarrow> string \<Rightarrow> AgentRunPayload \<Rightarrow> AgentRun" where
  "created_agent_run uuid4 now_iso payload = \<lparr>
     ar_id = py_or (arp_id payload) uuid4,
     ar_user_id = arp_user_id payload,
     ar_device_id = arp_device_id payload,
     ar_recipe_id = arp_recipe_id payload,
     ar_merchant_base_url = arp_merchant_base_url payload,
     ar_store_id = arp_store_id payload,
     ar_created_at = py_or (arp_created_at payload) now_iso,
     ar_updated_at = py_or (arp_updated_at payload) now_iso,
     ar_state = (case arp_state payload of
                   Some v \<Rightarrow> state_value v
                 | None \<Rightarrow> state_value DISCOVER_MERCHANT),
     ar_failure_code = arp_failure_code payload,
     ar_failure_detail = arp_failure_detail payload,
     ar_cart_draft_id = arp_cart_draft_id payload,
     ar_order_id = arp_order_id payload\<rparr>"

text \<open>
  What it means that a stored row is the row of a supplied payload item: the row
  belongs to the given parent, carries the supplied identifier when one was supplied
  (an absent or empty identifier is replaced by a generated one), and agrees with the
  payload in every other column.
\<close>

definition alternative_matches ::
  "string \<Rightarrow> CartDraftAlternative \<Rightarrow> CartDraftAlternativePayload \<Rightarrow> bool" where
  "alternative_matches line_id row alt \<longleftrightarrow>
     cda_line_item_id row = line_id
     \<and> (\<not> falsy (altp_id alt) \<longrightarrow> altp_id alt = Some (cda_id row))
     \<and> cda_rank row = altp_rank alt
     \<and> cda_sku_json row = altp_sku_json alt
     \<and> cda_score_breakdown_json row = altp_score_breakdown_json alt
     \<and> cda_reason row = altp_reason alt
     \<and> cda_confidence row = altp_confidence alt"

definition line_item_matches ::
  "string \<Rightarrow> CartDraftLineItem \<Rightarrow> CartDraftLineItemPayload \<Rightarrow> bool" where
  "line_item_matches cart_draft_id row line \<longleftrightarrow>
     li_cart_draft_id row = cart_draft_id
     \<and> (\<not> falsy (lip_id line) \<longrightarrow> lip_id line = Some (li_id row))
     \<and> li_ingredient_key row = lip_ingredient_key line
     \<and> li_canonical_ingredient_json row = lip_canonical_ingredient_json line
     \<and> li_primary_sku_json row = lip_primary_sku_json line
     \<and> li_quantity row = lip_quantity line
     \<and> li_unit row = lip_unit line
     \<and> li_confidence row = lip_confidence line
     \<and> li_chosen_reason row = lip_chosen_reason line
     \<and> li_substitution_policy_json row = lip_substitution_policy_json line
     \<and> li_line_total_cents row = lip_line_total_cents line"

text \<open>
  The stored subtree of a draft is the supplied one: the line items of the draft are
  the rows of the supplied line items, in their order, and the alternatives of each are
  the rows of the alternatives supplied for it.
\<close>

definition children_are ::
  "store \<Rightarrow> string \<Rightarrow> CartDraftLineItemPayload list \<Rightarrow> bool" where
  "children_are session cart_draft_id lines \<longleftrightarrow>
     list_all2
       (\<lambda>row line. line_item_matches cart_draft_id row line
          \<and> list_all2 (alternative_matches (li_id row))
               (db_get_cart_draft_alternatives session (li_id row)) (lip_alternatives line))
       (db_get_cart_draft_line_items session cart_draft_id) lines"

text \<open>
  Every alternative belongs to a line item of the table. The empty store satisfies this
  (lemma \<open>empty_store_references\<close>) and the routes keep it (lemmas
  \<open>upsert_cart_draft_keeps_references\<close> and \<open>other_routes_keep_references\<close>):
  \<open>_replace_cart_line_items\<close> is the only code that writes the two tables.
\<close>

definition alternatives_reference_line_items :: "store \<Rightarrow> bool" where
  "alternatives_reference_line_items session \<longleftrightarrow>
     (\<forall>a \<in> set (cart_draft_alternatives session).
        cda_line_item_id a \<in> set (map li_id (cart_draft_line_items session)))"

text \<open>
  The row that the conditional assignments of \<open>upsert_cart_draft\<close> and
  \<open>update_cart_draft\<close> leave in \<open>existing\<close>, as one record update, and the row that
  \<open>upsert_cart_draft\<close> constructs when it creates (lemmas \<open>upsert_cart_draft_existing\<close>,
  \<open>upsert_cart_draft_new\<close> and \<open>update_cart_draft_existing\<close>).
\<close>

definition merge_patch_cart_draft :: "string \<Rightarrow> CartDraftPayload \<Rightarrow> CartDraft \<Rightarrow> CartDraft" where
  "merge_patch_cart_draft now_iso payload e = e\<lparr>
     cd_agent_run_id :=
       (case cdp_agent_run_id payload of None \<Rightarrow> cd_agent_run_id e | Some v \<Rightarrow> Some v),
     cd_recipe_id :=
       (case cdp_recipe_id payload of None \<Rightarrow> cd_recipe_id e | Some v \<Rightarrow> Some v),
     cd_servings :=
       (case cdp_servings payload of None \<Rightarrow> cd_servings e | Some v \<Rightarrow> Some v),
     cd_pantry_items_removed :=
       (case cdp_pantry_items_removed payload of
          None \<Rightarrow> cd_pantry_items_removed e | Some v \<Rightarrow> Some v),
     cd_policies :=
       (case cdp_policies payload of None \<Rightarrow> cd_policies e | Some v \<Rightarrow> Some v),
     cd_quote_summary :=
       (case cdp_quote_summary payload of None \<Rightarrow> cd_quote_summary e | Some v \<Rightarrow> Some v),
     cd_checkout_session_id :=
       (case cdp_checkout_session_id payload of
          None \<Rightarrow> cd_checkout_session_id e | Some v \<Rightarrow> Some v),
     cd_cart_hash :=
       (case cdp_cart_hash payload of None \<Rightarrow> cd_cart_hash e | Some v \<Rightarrow> Some v),
     cd_quote_hash :=
       (case cdp_quote_hash payload of None \<Rightarrow> cd_quote_hash e | Some v \<Rightarrow> Some v),
     cd_updated_at := py_or (cdp_updated_at payload) now_iso\<rparr>"

definition created_cart_draft :: "string \<Rightarrow> string \<Rightarrow> CartDraftPayload \<Rightarrow> CartDraft" where
  "created_cart_draft cart_id now_iso cart_payload = \<lparr>
     cd_id = cart_id,
     cd_agent_run_id = cdp_agent_run_id cart_payload,
     cd_recipe_id = cdp_recipe_id cart_payload,
     cd_servings = cdp_servings cart_payload,
     cd_pantry_items_removed = cdp_pantry_items_removed cart_payload,
     cd_policies = cdp_policies cart_payload,
     cd_quote_summary = cdp_quote_summary cart_payload,
     cd_checkout_session_id = cdp_checkout_session_id cart_payload,
     cd_cart_hash = cdp_cart_hash cart_payload,
     cd_quote_hash = cdp_quote_hash cart_payload,
     cd_created_at = py_or (cdp_created_at cart_payload) now_iso,
     cd_updated_at = py_or (cdp_updated_at cart_payload) now_iso\<rparr>"

subsection \<open>Example data\<close>

text \<open>
  An agent run \<open>a1\<close> with the recipe \<open>r1\<close>; a draft \<open>c1\<close> stored with two line items, the
  first of which has one alternative, and the request that creates it; a request that
  supplies the draft again with one line item, and what the store and the response are
  after it; a request for the draft whose two line items carry the same identifier; a
  store whose agent run and cart draft have the empty string as their id, and a request
  with that id.
\<close>

definition run_a1 :: AgentRun where
  "run_a1 = \<lparr>
     ar_id = ''a1'', ar_user_id = None, ar_device_id = None, ar_recipe_id = Some ''r1'',
     ar_merchant_base_url = None, ar_store_id = None,
     ar_created_at = ''2026-01-01T00:00:00+00:00'', ar_updated_at = ''2026-01-01T00:00:00+00:00'',
     ar_state = ''DISCOVER_MERCHANT'', ar_failure_code = None, ar_failure_detail = None,
     ar_cart_draft_id = None, ar_order_id = None\<rparr>"

definition no_fields :: AgentRunPayload where
  "no_fields = \<lparr>
     arp_id = None, arp_user_id = None, arp_device_id = None, arp_recipe_id = None,
     arp_merchant_base_url = None, arp_store_id = None, arp_created_at = None,
     arp_updated_at = None, arp_state = None, arp_failure_code = None,
     arp_failure_detail = None, arp_cart_draft_id = None, arp_order_id = None\<rparr>"

definition empty_store :: store where
  "empty_store = \<lparr>agent_runs = [], cart_drafts = [], cart_draft_line_items = [],
     cart_draft_alternatives = []\<rparr>"

definition store_a1 :: store where
  "store_a1 = empty_store\<lparr>agent_runs := [run_a1]\<rparr>"

definition example_uuid4 :: "nat \<Rightarrow> string" where
  "example_uuid4 k = (if k = 0 then ''u0'' else if k = 1 then ''u1'' else ''u2'')"

definition no_cart_fields :: CartDraftPayload where
  "no_cart_fields = \<lparr>
     cdp_id = None, cdp_agent_run_id = None, cdp_recipe_id = None, cdp_servings = None,
     cdp_pantry_items_removed = None, cdp_policies = None, cdp_quote_summary = None,
     cdp_checkout_session_id = None, cdp_cart_hash = None, cdp_quote_hash = None,
     cdp_created_at = None, cdp_updated_at = None\<rparr>"

definition line_payload ::
  "string option \<Rightarrow> string \<Rightarrow> CartDraftAlternativePayload list \<Rightarrow> CartDraftLineItemPayload" where
  "line_payload i key alts = \<lparr>
     lip_id = i, lip_ingredient_key = key, lip_canonical_ingredient_json = None,
     lip_primary_sku_json = None, lip_quantity = 1, lip_unit = None, lip_confidence = None,
     lip_chosen_reason = None, lip_substitution_policy_json = None,
     lip_line_total_cents = None, lip_alternatives = alts\<rparr>"

definition alternative_payload :: "string option \<Rightarrow> int \<Rightarrow> CartDraftAlternativePayload" where
  "alternative_payload i rank = \<lparr>
     altp_id = i, altp_rank = rank, altp_sku_json = None, altp_score_breakdown_json = None,
     altp_reason = None, altp_confidence = None\<rparr>"

definition line_row :: "string \<Rightarrow> string \<Rightarrow> string \<Rightarrow> CartDraftLineItem" where
  "line_row i cart_draft_id key = \<lparr>
     li_id = i, li_cart_draft_id = cart_draft_id, li_ingredient_key = key,
     li_canonical_ingredient_json = None, li_primary_sku_json = None, li_quantity = 1,
     li_unit = None, li_confidence = None, li_chosen_reason = None,
     li_substitution_policy_json = None, li_line_total_cents = None\<rparr>"

definition alternative_row :: "string \<Rightarrow> string \<Rightarrow> int \<Rightarrow> CartDraftAlternative" where
  "alternative_row i line_id rank = \<lparr>
     cda_id = i, cda_line_item_id = line_id, cda_rank = rank, cda_sku_json = None,
     cda_score_breakdown_json = None, cda_reason = None, cda_confidence = None\<rparr>"

definition cart_c1 :: CartDraft where
  "cart_c1 = created_cart_draft ''c1'' ''2026-01-01T00:00:00+00:00'' no_cart_fields"

definition store_c1 :: store where
  "store_c1 = \<lparr>
     agent_runs = [],
     cart_drafts = [cart_c1],
     cart_draft_line_items = [line_row ''l1'' ''c1'' ''flour'', line_row ''l2'' ''c1'' ''eggs''],
     cart_draft_alternatives = [alternative_row ''a1'' ''l1'' 1]\<rparr>"

definition request_c1 :: CartDraftUpsertPayload where
  "request_c1 = \<lparr>
     up_cart = no_cart_fields\<lparr>cdp_id := Some ''c1''\<rparr>,
     up_line_items = [line_payload (Some ''l2'') ''eggs'' [alternative_payload None 1]]\<rparr>"

definition store_c2 :: store where
  "store_c2 = \<lparr>
     agent_runs = [],
     cart_drafts = [cart_c1\<lparr>cd_updated_at := ''2026-02-02T00:00:00+00:00''\<rparr>],
     cart_draft_line_items = [line_row ''l2'' ''c1'' ''eggs''],
     cart_draft_alternatives = [alternative_row ''u0'' ''l2'' 1]\<rparr>"

definition response_c2 :: cart_response where
  "response_c2 =
     (cart_c1\<lparr>cd_updated_at := ''2026-02-02T00:00:00+00:00''\<rparr>,
      [(line_row ''l2'' ''c1'' ''eggs'', [alternative_row ''u0'' ''l2'' 1])])"


definition request_c0 :: CartDraftUpsertPayload where
  "request_c0 = \<lparr>
     up_cart = no_cart_fields\<lparr>cdp_id := Some ''c1''\<rparr>,
     up_line_items =
       [line_payload (Some ''l1'') ''flour'' [alternative_payload (Some ''a1'') 1],
        line_payload (Some ''l2'') ''eggs'' []]\<rparr>"



section \<open>Properties of the inventory reservation\<close>

lemma execute_stmt_row:
  "tab p = Some (Some s) \<Longrightarrow>
   execute_stmt tab p q = (if s \<ge> q then (tab(p \<mapsto> Some (s - q)), 1) else (tab, 0))"
  by (simp add: execute_stmt_def)

lemma execute_stmt_no_row:
  "tab p = None \<or> tab p = Some None \<Longrightarrow> execute_stmt tab p q = (tab, 0)"
  by (auto simp: execute_stmt_def)

lemma reserve_stock_row:
  assumes "tab p = Some (Some s)"
  shows "reserve_stock tab p q fb =
           (if s \<ge> q then (tab(p \<mapsto> Some (s - q)), True) else (tab, False))"
  using assms
  by (auto simp: reserve_stock_def execute_stmt_def split: option.splits)

text \<open>
  Claim C2. When the first conditional decrement affects no row and a fallback quantity
  is supplied, then a product without a row gets a row with the fallback quantity, a row
  with a NULL quantity gets the fallback quantity, and the result of the call is the
  result of executing the same conditional decrement once more on that table: true with
  the stored quantity decremented when the fallback quantity suffices, false otherwise.
\<close>

theorem reserve_stock_fallback_retry:
  assumes "snd (execute_stmt tab product_id quantity) = 0"
    and "tab product_id = None \<or> tab product_id = Some None"
  shows "reserve_stock tab product_id quantity (Some fb) =
           (fst (execute_stmt (tab(product_id \<mapsto> Some fb)) product_id quantity),
            snd (execute_stmt (tab(product_id \<mapsto> Some fb)) product_id quantity) > 0)
       \<and> reserve_stock tab product_id quantity (Some fb) =
           (if fb \<ge> quantity then (tab(product_id \<mapsto> Some (fb - quantity)), True)
            else (tab(product_id \<mapsto> Some fb), False))"
  using assms(2)
  by (auto simp: reserve_stock_def execute_stmt_def)

theorem reserve_stock_fallback_retry_witness:
  "snd (execute_stmt Map.empty ''p1'' 30) = 0
   \<and> (Map.empty :: inventory) ''p1'' = None
   \<and> reserve_stock Map.empty ''p1'' 30 (Some 100) = ([''p1'' \<mapsto> Some 70], True)"
proof -
  have h1: "snd (execute_stmt Map.empty ''p1'' 30) = 0"
    by (simp add: execute_stmt_def)
  have h2: "(Map.empty :: inventory) ''p1'' = None \<or> (Map.empty :: inventory) ''p1'' = Some None"
    by simp
  show ?thesis
    using reserve_stock_fallback_retry [of Map.empty "''p1''" 30 100, OF h1 h2, THEN conjunct2] h1
    by simp
qed

lemma reserve_seq_row:
  assumes "tab p = Some (Some s)" "0 \<le> s" "0 < q"
  shows "\<exists>n. successes (snd (reserve_seq tab p q fbs)) = n \<and> int n \<le> s div q
            \<and> fst (reserve_seq tab p q fbs) p = Some (Some (s - q * int n))
            \<and> 0 \<le> s - q * int n"
  using assms
proof (induction fbs arbitrary: tab s)
  case Nil
  then show ?case by (simp add: successes_def pos_imp_zdiv_nonneg_iff)
next
  case (Cons fb fbs)
  show ?case
  proof (cases "s \<ge> q")
    case True
    let ?tab1 = "tab(p \<mapsto> Some (s - q))"
    have step: "reserve_stock tab p q fb = (?tab1, True)"
      using Cons.prems(1) True by (simp add: reserve_stock_row)
    have "?tab1 p = Some (Some (s - q))" by simp
    moreover have "0 \<le> s - q" using True by simp
    ultimately obtain n where n: "successes (snd (reserve_seq ?tab1 p q fbs)) = n"
        "int n \<le> (s - q) div q"
        "fst (reserve_seq ?tab1 p q fbs) p = Some (Some (s - q - q * int n))"
        "0 \<le> s - q - q * int n"
      using Cons.IH[of ?tab1 "s - q"] Cons.prems(3) by blast
    have d: "(s - q) div q = s div q - 1"
      using div_add_self2[of q "s - q"] Cons.prems(3) by simp
    have alg: "s - q - q * int n = s - q * int (Suc n)" by (simp add: algebra_simps)
    show ?thesis
      using n d step alg
      by (auto simp: successes_def split: prod.splits)
  next
    case False
    have step: "reserve_stock tab p q fb = (tab, False)"
      using Cons.prems(1) False by (simp add: reserve_stock_row)
    show ?thesis
      using Cons.IH[of tab s] Cons.prems step
      by (auto simp: successes_def split: prod.splits)
  qed
qed

text \<open>
  Claim C3, amended to a positive quantity. For a product whose row holds a stock
  \<open>s \<ge> 0\<close> and a sequence of calls with the same quantity \<open>q > 0\<close> (each call with or
  without a fallback quantity): at most \<open>s div q\<close> calls succeed, the final stored quantity
  is \<open>s - q * successes\<close>, and after every prefix of the sequence the stored quantity is
  a non-negative number.
\<close>

theorem reserve_seq_bounded:
  assumes "tab product_id = Some (Some s)" and "0 \<le> s" and "0 < q"
  shows "int (successes (snd (reserve_seq tab product_id q fbs))) \<le> s div q
       \<and> fst (reserve_seq tab product_id q fbs) product_id =
           Some (Some (s - q * int (successes (snd (reserve_seq tab product_id q fbs)))))
       \<and> (\<forall>k \<le> length fbs. \<exists>t \<ge> 0.
             fst (reserve_seq tab product_id q (take k fbs)) product_id = Some (Some t))"
proof -
  have "\<exists>t \<ge> 0. fst (reserve_seq tab product_id q (take k fbs)) product_id = Some (Some t)"
    for k
    using reserve_seq_row[of tab product_id s q "take k fbs"] assms by blast
  then show ?thesis
    using reserve_seq_row[of tab product_id s q fbs] assms by blast
qed

theorem reserve_seq_bounded_witness:
  "[''p1'' \<mapsto> Some (70::int)] ''p1'' = Some (Some 70) \<and> (0::int) \<le> 70 \<and> (0::int) < 30
   \<and> successes (snd (reserve_seq [''p1'' \<mapsto> Some 70] ''p1'' 30 [None, Some 100, None])) = 2
   \<and> fst (reserve_seq [''p1'' \<mapsto> Some 70] ''p1'' 30 [None, Some 100, None]) ''p1''
       = Some (Some 10)"
proof -
  have run: "reserve_seq [''p1'' \<mapsto> Some 70] ''p1'' 30 [None, Some 100, None]
             = ([''p1'' \<mapsto> Some 10], [True, True, False])"
    by (simp add: reserve_stock_def execute_stmt_def)
  have h: "[''p1'' \<mapsto> Some (70::int)] ''p1'' = Some (Some 70)"
    by simp
  have "int (successes (snd (reserve_seq [''p1'' \<mapsto> Some 70] ''p1'' 30 [None, Some 100, None])))
          \<le> 70 div 30"
    using reserve_seq_bounded
            [of "[''p1'' \<mapsto> Some 70]" "''p1''" 70 30 "[None, Some 100, None]", OF h]
    by simp
  then show ?thesis
    unfolding run by (simp add: successes_def)
qed

text \<open>
  Claim C3 as stated admits the quantity \<open>q = 0\<close>. A call with quantity 0 succeeds
  whenever the row holds a number, so a single call against a stock of 5 already exceeds
  the bound \<open>5 div 0 = 0\<close>.
\<close>

theorem reserve_seq_zero_quantity_counterexample:
  "(0::int) \<le> 5 \<and> (0::int) \<le> 0
   \<and> \<not> int (successes (snd (reserve_seq [''p1'' \<mapsto> Some 5] ''p1'' 0 [None]))) \<le> 5 div 0"
  by (simp add: reserve_stock_def execute_stmt_def successes_def)

text \<open>
  Claim C4. When the conditional decrement affects no row and no fallback quantity is
  supplied, the call returns \<open>False\<close> as its value, and the inventory table is the one
  it was given.
\<close>

theorem reserve_stock_insufficient:
  assumes "snd (execute_stmt tab product_id quantity) = 0"
  shows "reserve_stock tab product_id quantity None = (tab, False)"
  using assms
  by (auto simp: reserve_stock_def execute_stmt_def split: option.splits if_splits)

theorem reserve_stock_insufficient_witness:
  "snd (execute_stmt [''p1'' \<mapsto> Some 10] ''p1'' 30) = 0
   \<and> reserve_stock [''p1'' \<mapsto> Some 10] ''p1'' 30 None = ([''p1'' \<mapsto> Some 10], False)"
proof -
  have h: "snd (execute_stmt [''p1'' \<mapsto> Some 10] ''p1'' 30) = 0"
    by (simp add: execute_stmt_def)
  show ?thesis
    using reserve_stock_insufficient [of "[''p1'' \<mapsto> Some 10]" "''p1''" 30, OF h] h by simp
qed

text \<open>
  Claim C9. With a fallback quantity \<open>f\<close> supplied, a requested quantity \<open>q > f\<close>, and a
  product that has no row or a row with a NULL quantity, the call returns \<open>False\<close> and
  leaves a row with quantity \<open>f\<close> for the product.
\<close>

theorem reserve_stock_failed_call_seeds:
  assumes "tab product_id = None \<or> tab product_id = Some None" and "quantity > fb"
  shows "reserve_stock tab product_id quantity (Some fb) =
           (tab(product_id \<mapsto> Some fb), False)"
  using assms
  by (auto simp: reserve_stock_def execute_stmt_def)

theorem reserve_stock_failed_call_seeds_witness:
  "[''p1'' \<mapsto> None] ''p1'' = Some (None :: int option) \<and> (30::int) > 20
   \<and> reserve_stock [''p1'' \<mapsto> None] ''p1'' 30 (Some 20) = ([''p1'' \<mapsto> Some 20], False)"
proof -
  have h1: "[''p1'' \<mapsto> None] ''p1'' = None \<or> [''p1'' \<mapsto> None] ''p1'' = Some (None :: int option)"
    by simp
  have h2: "(30::int) > 20"
    by simp
  show ?thesis
    using reserve_stock_failed_call_seeds [of "[''p1'' \<mapsto> None]" "''p1''" 20 30, OF h1 h2]
    by simp
qed

section \<open>Properties of the agent run routes\<close>

lemma find_map_replace:
  "find (\<lambda>r. key r = i) xs = Some e \<Longrightarrow> key row = i \<Longrightarrow>
   find (\<lambda>r. key r = i) (map (\<lambda>r. if key r = i then row else r) xs) = Some row"
  by (induction xs) (auto split: if_splits)

lemma db_get_agent_run_id: "db_get_agent_run s i = Some e \<Longrightarrow> ar_id e = i"
  by (auto simp: db_get_agent_run_def find_Some_iff)

lemma db_get_agent_run_save:
  "db_get_agent_run s i = Some e \<Longrightarrow> ar_id row = i \<Longrightarrow>
   db_get_agent_run (save_agent_run s row) i = Some row"
  unfolding db_get_agent_run_def save_agent_run_def
  by (simp add: find_map_replace[where key = ar_id])

lemma agent_run_assign:
  "(case p of None \<Rightarrow> e | Some v \<Rightarrow> e\<lparr>ar_user_id := Some v\<rparr>) =
     e\<lparr>ar_user_id := (case p of None \<Rightarrow> ar_user_id e | Some v \<Rightarrow> Some v)\<rparr>"
  "(case p of None \<Rightarrow> e | Some v \<Rightarrow> e\<lparr>ar_device_id := Some v\<rparr>) =
     e\<lparr>ar_device_id := (case p of None \<Rightarrow> ar_device_id e | Some v \<Rightarrow> Some v)\<rparr>"
  "(case p of None \<Rightarrow> e | Some v \<Rightarrow> e\<lparr>ar_recipe_id := Some v\<rparr>) =
     e\<lparr>ar_recipe_id := (case p of None \<Rightarrow> ar_recipe_id e | Some v \<Rightarrow> Some v)\<rparr>"
  "(case p of None \<Rightarrow> e | Some v \<Rightarrow> e\<lparr>ar_merchant_base_url := Some v\<rparr>) =
     e\<lparr>ar_merchant_base_url := (case p of None \<Rightarrow> ar_merchant_base_url e | Some v \<Rightarrow> Some v)\<rparr>"
  "(case p of None \<Rightarrow> e | Some v \<Rightarrow> e\<lparr>ar_store_id := Some v\<rparr>) =
     e\<lparr>ar_store_id := (case p of None \<Rightarrow> ar_store_id e | Some v \<Rightarrow> Some v)\<rparr>"
  "(case st of None \<Rightarrow> e | Some v \<Rightarrow> e\<lparr>ar_state := state_value v\<rparr>) =
     e\<lparr>ar_state := (case st of None \<Rightarrow> ar_state e | Some v \<Rightarrow> state_value v)\<rparr>"
  "(case p of None \<Rightarrow> e | Some v \<Rightarrow> e\<lparr>ar_failure_code := Some v\<rparr>) =
     e\<lparr>ar_failure_code := (case p of None \<Rightarrow> ar_failure_code e | Some v \<Rightarrow> Some v)\<rparr>"
  "(case p of None \<Rightarrow> e | Some v \<Rightarrow> e\<lparr>ar_failure_detail := Some v\<rparr>) =
     e\<lparr>ar_failure_detail := (case p of None \<Rightarrow> ar_failure_detail e | Some v \<Rightarrow> Some v)\<rparr>"
  "(case p of None \<Rightarrow> e | Some v \<Rightarrow> e\<lparr>ar_cart_draft_id := Some v\<rparr>) =
     e\<lparr>ar_cart_draft_id := (case p of None \<Rightarrow> ar_cart_draft_id e | Some v \<Rightarrow> Some v)\<rparr>"
  "(case p of None \<Rightarrow> e | Some v \<Rightarrow> e\<lparr>ar_order_id := Some v\<rparr>) =
     e\<lparr>ar_order_id := (case p of None \<Rightarrow> ar_order_id e | Some v \<Rightarrow> Some v)\<rparr>"
  by (simp_all split: option.splits)

lemma update_agent_run_existing:
  assumes "db_get_agent_run session i = Some e"
  shows "update_agent_run now_iso i payload session =
           (save_agent_run session (merge_patch_agent_run now_iso payload e), Inr (merge_patch_agent_run now_iso payload e))"
proof -
  have id: "ar_id e = i" using assms by (rule db_get_agent_run_id)
  have id': "ar_id (merge_patch_agent_run now_iso payload e) = i" by (simp add: merge_patch_agent_run_def id)
  have g: "db_get_agent_run (save_agent_run session (merge_patch_agent_run now_iso payload e)) i
             = Some (merge_patch_agent_run now_iso payload e)"
    using assms id' by (rule db_get_agent_run_save)
  have chain: "update_agent_run now_iso i payload session =
      (let existing = merge_patch_agent_run now_iso payload e;
           committed = save_agent_run session existing
       in case refresh_agent_run committed (ar_id existing) of
            Inl err \<Rightarrow> (committed, Inl err)
          | Inr row \<Rightarrow> (committed, Inr row))"
    by (simp add: update_agent_run_def assms Let_def agent_run_assign merge_patch_agent_run_def
          cong: option.case_cong sum.case_cong)
  show ?thesis
    unfolding chain by (simp add: Let_def id' g refresh_agent_run_def)
qed

text \<open>
  Claim C5, amended. A PATCH of an agent run whose id exists succeeds; each of the
  fields \<open>user_id\<close>, \<open>device_id\<close>, \<open>recipe_id\<close>, \<open>merchant_base_url\<close>, \<open>store_id\<close>, \<open>state\<close>,
  \<open>failure_code\<close>, \<open>failure_detail\<close>, \<open>cart_draft_id\<close> and \<open>order_id\<close> that is present in the
  payload overwrites the stored value; \<open>updated_at\<close> becomes the supplied non-empty
  \<open>updated_at\<close> or else the current time; \<open>id\<close> and \<open>created_at\<close> keep their stored values
  whatever the payload holds; the stored row is the row returned.
\<close>

theorem update_agent_run_overwrites:
  assumes "db_get_agent_run session agent_run_id = Some e"
  shows "\<exists>r. update_agent_run now_iso agent_run_id payload session
               = (save_agent_run session r, Inr r)
     \<and> db_get_agent_run (save_agent_run session r) agent_run_id = Some r
     \<and> (\<forall>v. arp_user_id payload = Some v \<longrightarrow> ar_user_id r = Some v)
     \<and> (\<forall>v. arp_device_id payload = Some v \<longrightarrow> ar_device_id r = Some v)
     \<and> (\<forall>v. arp_recipe_id payload = Some v \<longrightarrow> ar_recipe_id r = Some v)
     \<and> (\<forall>v. arp_merchant_base_url payload = Some v \<longrightarrow> ar_merchant_base_url r = Some v)
     \<and> (\<forall>v. arp_store_id payload = Some v \<longrightarrow> ar_store_id r = Some v)
     \<and> (\<forall>v. arp_state payload = Some v \<longrightarrow> ar_state r = state_value v)
     \<and> (\<forall>v. arp_failure_code payload = Some v \<longrightarrow> ar_failure_code r = Some v)
     \<and> (\<forall>v. arp_failure_detail payload = Some v \<longrightarrow> ar_failure_detail r = Some v)
     \<and> (\<forall>v. arp_cart_draft_id payload = Some v \<longrightarrow> ar_cart_draft_id r = Some v)
     \<and> (\<forall>v. arp_order_id payload = Some v \<longrightarrow> ar_order_id r = Some v)
     \<and> ar_updated_at r = py_or (arp_updated_at payload) now_iso
     \<and> ar_id r = ar_id e
     \<and> ar_created_at r = ar_created_at e"
proof -
  let ?r = "merge_patch_agent_run now_iso payload e"
  have "ar_id ?r = agent_run_id"
    using db_get_agent_run_id[OF assms] by (simp add: merge_patch_agent_run_def)
  then have "db_get_agent_run (save_agent_run session ?r) agent_run_id = Some ?r"
    using assms by (simp add: db_get_agent_run_save)
  then show ?thesis
    using update_agent_run_existing[OF assms, of now_iso payload]
    by (intro exI[of _ ?r]) (simp add: merge_patch_agent_run_def)
qed

theorem update_agent_run_overwrites_witness:
  "db_get_agent_run store_a1 ''a1'' = Some run_a1
   \<and> (\<exists>r. update_agent_run ''2026-02-02T00:00:00+00:00'' ''a1''
               (no_fields\<lparr>arp_state := Some FAILED\<rparr>) store_a1
             = (save_agent_run store_a1 r, Inr r)
          \<and> ar_state r = ''FAILED''
          \<and> ar_updated_at r = ''2026-02-02T00:00:00+00:00'')"
proof -
  have h: "db_get_agent_run store_a1 ''a1'' = Some run_a1"
    by (simp add: db_get_agent_run_def store_a1_def empty_store_def run_a1_def)
  show ?thesis
    using update_agent_run_overwrites
            [OF h, of "''2026-02-02T00:00:00+00:00''" "no_fields\<lparr>arp_state := Some FAILED\<rparr>"] h
    by (auto simp: no_fields_def py_or_def)
qed

text \<open>
  Claim C5 as stated counts \<open>created_at\<close> among the fields that a PATCH overwrites.
  The route has no assignment to \<open>created_at\<close>: a payload with a \<open>created_at\<close> leaves
  the stored one as it was.
\<close>

theorem update_agent_run_created_at_counterexample:
  "db_get_agent_run store_a1 ''a1'' = Some run_a1
   \<and> arp_created_at (no_fields\<lparr>arp_created_at := Some ''2030-01-01T00:00:00+00:00''\<rparr>)
       = Some ''2030-01-01T00:00:00+00:00''
   \<and> map_option ar_created_at
       (db_get_agent_run
         (fst (update_agent_run ''2026-02-02T00:00:00+00:00'' ''a1''
                (no_fields\<lparr>arp_created_at := Some ''2030-01-01T00:00:00+00:00''\<rparr>) store_a1))
         ''a1'')
       = Some ''2026-01-01T00:00:00+00:00''"
proof -
  have h: "db_get_agent_run store_a1 ''a1'' = Some run_a1"
    by (simp add: db_get_agent_run_def store_a1_def empty_store_def run_a1_def)
  show ?thesis
    by (simp add: h update_agent_run_existing[OF h])
       (simp add: db_get_agent_run_def save_agent_run_def store_a1_def empty_store_def
          run_a1_def merge_patch_agent_run_def no_fields_def)
qed

text \<open>
  Claim C6, amended. A PATCH of an existing agent run leaves every field that the payload
  omits as it was stored, \<open>updated_at\<close> excepted: an omitted \<open>updated_at\<close> is replaced by the
  current time. \<open>id\<close> and \<open>created_at\<close> are left as stored in any case.
\<close>

theorem update_agent_run_keeps_omitted:
  assumes "db_get_agent_run session agent_run_id = Some e"
  shows "\<exists>r. update_agent_run now_iso agent_run_id payload session
               = (save_agent_run session r, Inr r)
     \<and> db_get_agent_run (save_agent_run session r) agent_run_id = Some r
     \<and> (arp_user_id payload = None \<longrightarrow> ar_user_id r = ar_user_id e)
     \<and> (arp_device_id payload = None \<longrightarrow> ar_device_id r = ar_device_id e)
     \<and> (arp_recipe_id payload = None \<longrightarrow> ar_recipe_id r = ar_recipe_id e)
     \<and> (arp_merchant_base_url payload = None \<longrightarrow> ar_merchant_base_url r = ar_merchant_base_url e)
     \<and> (arp_store_id payload = None \<longrightarrow> ar_store_id r = ar_store_id e)
     \<and> (arp_state payload = None \<longrightarrow> ar_state r = ar_state e)
     \<and> (arp_failure_code payload = None \<longrightarrow> ar_failure_code r = ar_failure_code e)
     \<and> (arp_failure_detail payload = None \<longrightarrow> ar_failure_detail r = ar_failure_detail e)
     \<and> (arp_cart_draft_id payload = None \<longrightarrow> ar_cart_draft_id r = ar_cart_draft_id e)
     \<and> (arp_order_id payload = None \<longrightarrow> ar_order_id r = ar_order_id e)
     \<and> (arp_updated_at payload = None \<longrightarrow> ar_updated_at r = now_iso)
     \<and> ar_id r = ar_id e
     \<and> ar_created_at r = ar_created_at e"
proof -
  let ?r = "merge_patch_agent_run now_iso payload e"
  have "ar_id ?r = agent_run_id"
    using db_get_agent_run_id[OF assms] by (simp add: merge_patch_agent_run_def)
  then have "db_get_agent_run (save_agent_run session ?r) agent_run_id = Some ?r"
    using assms by (simp add: db_get_agent_run_save)
  then show ?thesis
    using update_agent_run_existing[OF assms, of now_iso payload]
    by (intro exI[of _ ?r]) (simp add: merge_patch_agent_run_def py_or_def)
qed

theorem update_agent_run_keeps_omitted_witness:
  "db_get_agent_run store_a1 ''a1'' = Some run_a1
   \<and> arp_recipe_id (no_fields\<lparr>arp_state := Some FAILED\<rparr>) = None
   \<and> arp_updated_at (no_fields\<lparr>arp_state := Some FAILED\<rparr>) = None
   \<and> (\<exists>r. update_agent_run ''2026-02-02T00:00:00+00:00'' ''a1''
               (no_fields\<lparr>arp_state := Some FAILED\<rparr>) store_a1
             = (save_agent_run store_a1 r, Inr r)
          \<and> ar_recipe_id r = Some ''r1''
          \<and> ar_updated_at r = ''2026-02-02T00:00:00+00:00'')"
proof -
  have h: "db_get_agent_run store_a1 ''a1'' = Some run_a1"
    by (simp add: db_get_agent_run_def store_a1_def empty_store_def run_a1_def)
  show ?thesis
    using update_agent_run_keeps_omitted
            [OF h, of "''2026-02-02T00:00:00+00:00''" "no_fields\<lparr>arp_state := Some FAILED\<rparr>"] h
    by (auto simp: no_fields_def run_a1_def)
qed

text \<open>
  Claim C6 as stated covers every omitted field. \<open>updated_at\<close> is a field of the
  payload, and when it is omitted the stored value is replaced by the current time.
\<close>

theorem update_agent_run_updated_at_counterexample:
  "db_get_agent_run store_a1 ''a1'' = Some run_a1
   \<and> arp_updated_at (no_fields\<lparr>arp_state := Some FAILED\<rparr>) = None
   \<and> ar_updated_at run_a1 = ''2026-01-01T00:00:00+00:00''
   \<and> map_option ar_updated_at
       (db_get_agent_run
         (fst (update_agent_run ''2026-02-02T00:00:00+00:00'' ''a1''
                (no_fields\<lparr>arp_state := Some FAILED\<rparr>) store_a1))
         ''a1'')
       = Some ''2026-02-02T00:00:00+00:00''"
proof -
  have h: "db_get_agent_run store_a1 ''a1'' = Some run_a1"
    by (simp add: db_get_agent_run_def store_a1_def empty_store_def run_a1_def)
  show ?thesis
    by (simp add: h update_agent_run_existing[OF h])
       (simp add: db_get_agent_run_def save_agent_run_def store_a1_def empty_store_def
          run_a1_def merge_patch_agent_run_def no_fields_def py_or_def)
qed

lemma find_None_ids: "find (\<lambda>r. key r = i) xs = None \<longleftrightarrow> i \<notin> set (map key xs)"
  by (auto simp: find_None_iff)

lemma find_append_new:
  "find P xs = None \<Longrightarrow> P x \<Longrightarrow> find P (xs @ [x]) = Some x"
  by (induction xs) (auto split: if_splits)

lemma upsert_agent_run_new:
  assumes "db_get_agent_run session (py_or (arp_id payload) uuid4) = None"
  shows "upsert_agent_run uuid4 now_iso payload session =
           (session\<lparr>agent_runs := agent_runs session @ [created_agent_run uuid4 now_iso payload]\<rparr>,
            Inr (created_agent_run uuid4 now_iso payload))"
proof -
  let ?r = "created_agent_run uuid4 now_iso payload"
  have id: "ar_id ?r = py_or (arp_id payload) uuid4"
    by (simp add: created_agent_run_def)
  have fresh: "ar_id ?r \<notin> set (map ar_id (agent_runs session))"
    using assms unfolding id by (simp add: db_get_agent_run_def find_None_ids)
  have add: "add_agent_run session ?r = Inr (session\<lparr>agent_runs := agent_runs session @ [?r]\<rparr>)"
    using fresh by (simp add: add_agent_run_def)
  have get: "db_get_agent_run (session\<lparr>agent_runs := agent_runs session @ [?r]\<rparr>) (ar_id ?r)
               = Some ?r"
    using assms unfolding id by (simp add: db_get_agent_run_def find_append_new id)
  have chain: "upsert_agent_run uuid4 now_iso payload session =
      (case add_agent_run session ?r of
         Inl err \<Rightarrow> (session, Inl err)
       | Inr committed \<Rightarrow>
           (case refresh_agent_run committed (ar_id ?r) of
              Inl err \<Rightarrow> (committed, Inl err)
            | Inr row \<Rightarrow> (committed, Inr row)))"
    by (simp add: upsert_agent_run_def assms Let_def created_agent_run_def
          cong: option.case_cong sum.case_cong)
  show ?thesis
    unfolding chain add by (simp add: refresh_agent_run_def get)
qed

lemma upsert_agent_run_existing:
  assumes "db_get_agent_run session (py_or (arp_id payload) uuid4) = Some e"
  shows "upsert_agent_run uuid4 now_iso payload session =
           (save_agent_run session (merge_patch_agent_run now_iso payload e),
            Inr (merge_patch_agent_run now_iso payload e))"
proof -
  let ?i = "py_or (arp_id payload) uuid4"
  let ?r = "merge_patch_agent_run now_iso payload e"
  have id': "ar_id ?r = ?i"
    using db_get_agent_run_id[OF assms] by (simp add: merge_patch_agent_run_def)
  have g: "db_get_agent_run (save_agent_run session ?r) ?i = Some ?r"
    using assms id' by (rule db_get_agent_run_save)
  have chain: "upsert_agent_run uuid4 now_iso payload session =
      (let existing = ?r;
           committed = save_agent_run session existing
       in case refresh_agent_run committed (ar_id existing) of
            Inl err \<Rightarrow> (committed, Inl err)
          | Inr row \<Rightarrow> (committed, Inr row))"
    by (simp add: upsert_agent_run_def assms Let_def agent_run_assign merge_patch_agent_run_def
          cong: option.case_cong sum.case_cong)
  show ?thesis
    unfolding chain by (simp add: Let_def id' g refresh_agent_run_def)
qed

text \<open>
  Claim C8. When no agent run is stored under the id of the request (the supplied id,
  or the generated one when none is supplied), \<open>upsert_agent_run\<close> appends one row and
  returns it: its id is the generated one when the request supplies none, its state is
  \<open>DISCOVER_MERCHANT\<close> when the request supplies none and the supplied one otherwise, and
  \<open>created_at\<close> and \<open>updated_at\<close> are the current time when the request does not supply
  them and the supplied non-empty strings otherwise.
\<close>

theorem upsert_agent_run_creates:
  assumes "py_or (arp_id payload) uuid4 \<notin> set (map ar_id (agent_runs session))"
  shows "\<exists>r. upsert_agent_run uuid4 now_iso payload session
               = (session\<lparr>agent_runs := agent_runs session @ [r]\<rparr>, Inr r)
     \<and> (arp_id payload = None \<longrightarrow> ar_id r = uuid4)
     \<and> (\<forall>v. arp_id payload = Some v \<and> v \<noteq> [] \<longrightarrow> ar_id r = v)
     \<and> (arp_state payload = None \<longrightarrow> ar_state r = ''DISCOVER_MERCHANT'')
     \<and> (\<forall>v. arp_state payload = Some v \<longrightarrow> ar_state r = state_value v)
     \<and> ar_created_at r = py_or (arp_created_at payload) now_iso
     \<and> ar_updated_at r = py_or (arp_updated_at payload) now_iso
     \<and> (arp_created_at payload = None \<longrightarrow> ar_created_at r = now_iso)
     \<and> (arp_updated_at payload = None \<longrightarrow> ar_updated_at r = now_iso)
     \<and> (\<forall>t. arp_created_at payload = Some t \<and> t \<noteq> [] \<longrightarrow> ar_created_at r = t)
     \<and> (\<forall>t. arp_updated_at payload = Some t \<and> t \<noteq> [] \<longrightarrow> ar_updated_at r = t)"
proof -
  let ?r = "created_agent_run uuid4 now_iso payload"
  have none: "db_get_agent_run session (py_or (arp_id payload) uuid4) = None"
    using assms by (simp add: db_get_agent_run_def find_None_ids)
  show ?thesis
    using upsert_agent_run_new[OF none, of now_iso]
    by (intro exI[of _ ?r]) (simp add: created_agent_run_def py_or_def)
qed

text \<open>
  The witness of C8: a request with no field at all, against the empty store.
\<close>

theorem upsert_agent_run_creates_witness:
  "py_or (arp_id no_fields) ''u0'' \<notin> set (map ar_id (agent_runs empty_store))
   \<and> arp_id no_fields = None \<and> arp_state no_fields = None
   \<and> arp_created_at no_fields = None \<and> arp_updated_at no_fields = None
   \<and> (\<exists>r. upsert_agent_run ''u0'' ''2026-02-02T00:00:00+00:00'' no_fields empty_store
              = (empty_store\<lparr>agent_runs := [r]\<rparr>, Inr r)
          \<and> ar_id r = ''u0''
          \<and> ar_state r = ''DISCOVER_MERCHANT''
          \<and> ar_created_at r = ''2026-02-02T00:00:00+00:00''
          \<and> ar_updated_at r = ''2026-02-02T00:00:00+00:00'')"
proof -
  have h: "py_or (arp_id no_fields) ''u0'' \<notin> set (map ar_id (agent_runs empty_store))"
    by (simp add: empty_store_def)
  have e: "agent_runs empty_store = []"
    by (simp add: empty_store_def)
  show ?thesis
    using upsert_agent_run_creates
            [of no_fields "''u0''" empty_store "''2026-02-02T00:00:00+00:00''", OF h] h
    by (auto simp: no_fields_def e)
qed

section \<open>Properties of the cart draft routes\<close>

lemma add_alternatives_Inr:
  "add_alternatives uuid4 line_id alts session n = Inr (session', n') \<Longrightarrow>
     agent_runs session' = agent_runs session
     \<and> cart_drafts session' = cart_drafts session
     \<and> cart_draft_line_items session' = cart_draft_line_items session
     \<and> (\<exists>new. cart_draft_alternatives session' = cart_draft_alternatives session @ new
           \<and> list_all2 (alternative_matches line_id) new alts)"
proof (induction alts arbitrary: session n)
  case Nil
  then show ?case by simp
next
  case (Cons alt alts)
  let ?row = "\<lparr>cda_id = py_or (altp_id alt) (uuid4 n), cda_line_item_id = line_id,
                cda_rank = altp_rank alt, cda_sku_json = altp_sku_json alt,
                cda_score_breakdown_json = altp_score_breakdown_json alt,
                cda_reason = altp_reason alt, cda_confidence = altp_confidence alt\<rparr>"
  let ?n = "if falsy (altp_id alt) then Suc n else n"
  from Cons.prems obtain s1 where
    s1: "add_alternative session ?row = Inr s1"
    and rest: "add_alternatives uuid4 line_id alts s1 ?n = Inr (session', n')"
    by (auto simp: Let_def split: sum.splits)
  have s1_eq: "s1 = session\<lparr>cart_draft_alternatives := cart_draft_alternatives session @ [?row]\<rparr>"
    using s1 by (auto simp: add_alternative_def split: if_splits)
  have m: "alternative_matches line_id ?row alt"
    by (auto simp: alternative_matches_def falsy_def py_or_def split: option.splits)
  from Cons.IH[OF rest] obtain new where
    new: "cart_draft_alternatives session' = cart_draft_alternatives s1 @ new"
      "list_all2 (alternative_matches line_id) new alts"
    and frame: "agent_runs session' = agent_runs s1" "cart_drafts session' = cart_drafts s1"
      "cart_draft_line_items session' = cart_draft_line_items s1"
    by blast
  show ?case
    using new frame m unfolding s1_eq
    by (intro conjI exI[of _ "?row # new"]) simp_all
qed


lemma alternative_matches_parent:
  "list_all2 (alternative_matches line_id) new alts \<Longrightarrow>
   \<forall>a \<in> set new. cda_line_item_id a = line_id"
  by (auto simp: list_all2_conv_all_nth in_set_conv_nth alternative_matches_def)

lemma add_line_items_Inr:
  "add_line_items uuid4 cid lines session n persisted = Inr (session', n', persisted') \<Longrightarrow>
   agent_runs session' = agent_runs session
   \<and> cart_drafts session' = cart_drafts session
   \<and> (\<exists>new_lines new_alts.
         cart_draft_line_items session' = cart_draft_line_items session @ new_lines
       \<and> persisted' = persisted @ new_lines
       \<and> cart_draft_alternatives session' = cart_draft_alternatives session @ new_alts
       \<and> distinct (map li_id new_lines)
       \<and> set (map li_id new_lines) \<inter> set (map li_id (cart_draft_line_items session)) = {}
       \<and> (\<forall>a \<in> set new_alts. cda_line_item_id a \<in> set (map li_id new_lines))
       \<and> list_all2
            (\<lambda>row line. line_item_matches cid row line
               \<and> list_all2 (alternative_matches (li_id row))
                    (filter (\<lambda>a. cda_line_item_id a = li_id row) new_alts)
                    (lip_alternatives line))
            new_lines lines)"
proof (induction lines arbitrary: session n persisted)
  case Nil
  then show ?case by simp
next
  case (Cons line lines)
  let ?line_id = "py_or (lip_id line) (uuid4 n)"
  let ?n = "if falsy (lip_id line) then Suc n else n"
  let ?row = "\<lparr>li_id = ?line_id, li_cart_draft_id = cid,
      li_ingredient_key = lip_ingredient_key line,
      li_canonical_ingredient_json = lip_canonical_ingredient_json line,
      li_primary_sku_json = lip_primary_sku_json line,
      li_quantity = lip_quantity line, li_unit = lip_unit line,
      li_confidence = lip_confidence line, li_chosen_reason = lip_chosen_reason line,
      li_substitution_policy_json = lip_substitution_policy_json line,
      li_line_total_cents = lip_line_total_cents line\<rparr>"
  from Cons.prems obtain s1 s2 n2 where
    s1: "add_line_item session ?row = Inr s1"
    and s2: "add_alternatives uuid4 ?line_id (lip_alternatives line) s1 ?n = Inr (s2, n2)"
    and rest: "add_line_items uuid4 cid lines s2 n2 (persisted @ [?row])
                 = Inr (session', n', persisted')"
    by (auto simp: Let_def split: sum.splits)
  have fresh: "?line_id \<notin> set (map li_id (cart_draft_line_items session))"
    using s1 by (auto simp: add_line_item_def split: if_splits)
  have s1_eq: "s1 = session\<lparr>cart_draft_line_items := cart_draft_line_items session @ [?row]\<rparr>"
    using s1 by (auto simp: add_line_item_def split: if_splits)
  from add_alternatives_Inr[OF s2] obtain alts0 where
    s2_frame: "agent_runs s2 = agent_runs s1" "cart_drafts s2 = cart_drafts s1"
      "cart_draft_line_items s2 = cart_draft_line_items s1"
    and s2_alts: "cart_draft_alternatives s2 = cart_draft_alternatives s1 @ alts0"
    and alts0: "list_all2 (alternative_matches ?line_id) alts0 (lip_alternatives line)"
    by blast
  have alts0_parent: "\<forall>a \<in> set alts0. cda_line_item_id a = ?line_id"
    using alts0 by (rule alternative_matches_parent)
  from Cons.IH[OF rest] obtain new_lines new_alts where
    frame: "agent_runs session' = agent_runs s2" "cart_drafts session' = cart_drafts s2"
    and lines': "cart_draft_line_items session' = cart_draft_line_items s2 @ new_lines"
    and pers: "persisted' = (persisted @ [?row]) @ new_lines"
    and alts': "cart_draft_alternatives session' = cart_draft_alternatives s2 @ new_alts"
    and dist: "distinct (map li_id new_lines)"
    and disj: "set (map li_id new_lines) \<inter> set (map li_id (cart_draft_line_items s2)) = {}"
    and refs: "\<forall>a \<in> set new_alts. cda_line_item_id a \<in> set (map li_id new_lines)"
    and all2: "list_all2
            (\<lambda>row line. line_item_matches cid row line
               \<and> list_all2 (alternative_matches (li_id row))
                    (filter (\<lambda>a. cda_line_item_id a = li_id row) new_alts)
                    (lip_alternatives line))
            new_lines lines"
    by blast
  have s2_lines: "cart_draft_line_items s2 = cart_draft_line_items session @ [?row]"
    using s2_frame(3) s1_eq by simp
  have row_not_new: "?line_id \<notin> set (map li_id new_lines)"
    using disj unfolding s2_lines by auto
  have "cda_line_item_id a \<noteq> ?line_id" if "a \<in> set new_alts" for a
    using that refs row_not_new by metis
  then have new_alts_not_row: "filter (\<lambda>a. cda_line_item_id a = ?line_id) new_alts = []"
    by (simp add: filter_empty_conv)
  have alts0_all: "filter (\<lambda>a. cda_line_item_id a = ?line_id) alts0 = alts0"
    using alts0_parent by (simp add: filter_id_conv)
  have alts0_none: "filter (\<lambda>a. cda_line_item_id a = li_id r) alts0 = []"
    if "r \<in> set new_lines" for r
  proof -
    have "li_id r \<noteq> ?line_id" using that row_not_new by (metis image_eqI set_map)
    then show ?thesis using alts0_parent by (auto simp: filter_empty_conv)
  qed
  have head: "line_item_matches cid ?row line"
    by (auto simp: line_item_matches_def falsy_def py_or_def split: option.splits)
  have tail: "list_all2
            (\<lambda>row line. line_item_matches cid row line
               \<and> list_all2 (alternative_matches (li_id row))
                    (filter (\<lambda>a. cda_line_item_id a = li_id row) (alts0 @ new_alts))
                    (lip_alternatives line))
            new_lines lines"
    using all2 by (rule list.rel_mono_strong) (simp add: alts0_none)
  show ?case
  proof (intro conjI exI[of _ "?row # new_lines"] exI[of _ "alts0 @ new_alts"])
    show "agent_runs session' = agent_runs session"
      using frame s2_frame s1_eq by simp
    show "cart_drafts session' = cart_drafts session"
      using frame s2_frame s1_eq by simp
    show "cart_draft_line_items session' = cart_draft_line_items session @ ?row # new_lines"
      using lines' s2_lines by simp
    show "persisted' = persisted @ ?row # new_lines"
      using pers by simp
    show "cart_draft_alternatives session' = cart_draft_alternatives session @ alts0 @ new_alts"
      using alts' s2_alts s1_eq by simp
    show "distinct (map li_id (?row # new_lines))"
      using dist row_not_new by simp
    show "set (map li_id (?row # new_lines)) \<inter> set (map li_id (cart_draft_line_items session)) = {}"
      using disj fresh unfolding s2_lines by auto
    show "\<forall>a \<in> set (alts0 @ new_alts). cda_line_item_id a \<in> set (map li_id (?row # new_lines))"
      using refs alts0_parent by auto
    show "list_all2
            (\<lambda>row line. line_item_matches cid row line
               \<and> list_all2 (alternative_matches (li_id row))
                    (filter (\<lambda>a. cda_line_item_id a = li_id row) (alts0 @ new_alts))
                    (lip_alternatives line))
            (?row # new_lines) (line # lines)"
      using head tail alts0 by (simp add: alts0_all new_alts_not_row)
  qed
qed


lemma list_all2_lefts:
  "list_all2 P xs ys \<Longrightarrow> x \<in> set xs \<Longrightarrow> \<exists>y. P x y"
  by (auto simp: list_all2_conv_all_nth in_set_conv_nth)

lemma replace_cart_line_items_Inr:
  assumes run: "replace_cart_line_items uuid4 session n cid lines = Inr (session', n', persisted)"
    and inv: "alternatives_reference_line_items session"
  shows "agent_runs session' = agent_runs session
       \<and> cart_drafts session' = cart_drafts session
       \<and> db_get_cart_draft_line_items session' cid = persisted
       \<and> children_are session' cid lines
       \<and> alternatives_reference_line_items session'
       \<and> (\<forall>old \<in> set (db_get_cart_draft_line_items session cid).
             li_id old \<notin> set (map li_id persisted) \<longrightarrow>
             db_get_cart_draft_alternatives session' (li_id old) = [])"
proof -
  let ?L = "cart_draft_line_items session"
  let ?A = "cart_draft_alternatives session"
  let ?E = "set (map li_id (filter (\<lambda>r. li_cart_draft_id r = cid) ?L))"
  let ?L' = "filter (\<lambda>r. li_cart_draft_id r \<noteq> cid) ?L"
  let ?A' = "filter (\<lambda>a. cda_line_item_id a \<notin> ?E) ?A"
  let ?D = "session\<lparr>cart_draft_alternatives := ?A', cart_draft_line_items := ?L'\<rparr>"
  have del: "replace_cart_line_items uuid4 session n cid lines
               = add_line_items uuid4 cid lines ?D n []"
  proof (cases "filter (\<lambda>r. li_cart_draft_id r = cid) ?L = []")
    case True
    then have "?A' = ?A" by simp
    then have "?D = session\<lparr>cart_draft_line_items := ?L'\<rparr>" by simp
    then show ?thesis
      using True
      by (simp add: replace_cart_line_items_def Let_def db_get_cart_draft_line_items_def
            db_delete_cart_draft_line_items_def)
  next
    case False
    then show ?thesis
      by (simp add: replace_cart_line_items_def Let_def db_get_cart_draft_line_items_def
            db_delete_cart_draft_line_items_def)
  qed
  from run[unfolded del] add_line_items_Inr[of uuid4 cid lines ?D n "[]" session' n' persisted]
  obtain new_lines new_alts where
    frame: "agent_runs session' = agent_runs session" "cart_drafts session' = cart_drafts session"
    and lines': "cart_draft_line_items session' = ?L' @ new_lines"
    and pers: "persisted = new_lines"
    and alts': "cart_draft_alternatives session' = ?A' @ new_alts"
    and disj: "set (map li_id new_lines) \<inter> set (map li_id ?L') = {}"
    and refs: "\<forall>a \<in> set new_alts. cda_line_item_id a \<in> set (map li_id new_lines)"
    and all2: "list_all2
            (\<lambda>row line. line_item_matches cid row line
               \<and> list_all2 (alternative_matches (li_id row))
                    (filter (\<lambda>a. cda_line_item_id a = li_id row) new_alts)
                    (lip_alternatives line))
            new_lines lines"
    by auto
  have new_cart: "li_cart_draft_id r = cid" if "r \<in> set new_lines" for r
    using list_all2_lefts[OF all2 that] by (auto simp: line_item_matches_def)
  have get_lines: "db_get_cart_draft_line_items session' cid = new_lines"
    unfolding db_get_cart_draft_line_items_def lines'
    using new_cart by (simp add: filter_id_conv)
  have old_ref: "\<exists>row \<in> set ?L. li_id row = cda_line_item_id a" if "a \<in> set ?A" for a
    using inv that unfolding alternatives_reference_line_items_def by fastforce
  have kept_ref: "cda_line_item_id a \<in> set (map li_id ?L')" if "a \<in> set ?A'" for a
  proof -
    from that have a: "a \<in> set ?A" and notE: "cda_line_item_id a \<notin> ?E" by auto
    from old_ref[OF a] obtain row where row: "row \<in> set ?L" "li_id row = cda_line_item_id a"
      by blast
    have "li_cart_draft_id row \<noteq> cid"
    proof
      assume "li_cart_draft_id row = cid"
      then have "li_id row \<in> ?E" using row(1) by auto
      then show False using notE row(2) by simp
    qed
    then have "row \<in> set ?L'" using row(1) by simp
    then show ?thesis using row(2) by (metis image_eqI set_map)
  qed
  have kept_not_new: "filter (\<lambda>a. cda_line_item_id a = li_id r) ?A' = []"
    if "r \<in> set new_lines" for r
  proof -
    have "li_id r \<in> set (map li_id new_lines)" using that by simp
    then have "li_id r \<notin> set (map li_id ?L')" using disj by blast
    then have "cda_line_item_id a \<noteq> li_id r" if "a \<in> set ?A'" for a
      using kept_ref[OF that] by metis
    then show ?thesis by (simp add: filter_empty_conv del: filter_filter)
  qed
  have get_alts: "db_get_cart_draft_alternatives session' (li_id r)
                    = filter (\<lambda>a. cda_line_item_id a = li_id r) new_alts"
    if "r \<in> set new_lines" for r
    unfolding db_get_cart_draft_alternatives_def alts'
    using kept_not_new[OF that] by (simp del: filter_filter)
  have children: "children_are session' cid lines"
    unfolding children_are_def get_lines
    using all2 by (rule list.rel_mono_strong) (simp add: get_alts)
  have inv': "alternatives_reference_line_items session'"
    unfolding alternatives_reference_line_items_def lines' alts'
    using kept_ref refs by auto
  have dropped: "db_get_cart_draft_alternatives session' (li_id old) = []"
    if "old \<in> set (db_get_cart_draft_line_items session cid)"
      and "li_id old \<notin> set (map li_id persisted)" for old
  proof -
    have "li_id old \<in> ?E"
      using that(1) by (auto simp: db_get_cart_draft_line_items_def)
    then have 1: "filter (\<lambda>a. cda_line_item_id a = li_id old) ?A' = []"
      by (auto simp: filter_empty_conv)
    have "cda_line_item_id a \<noteq> li_id old" if "a \<in> set new_alts" for a
      using refs that \<open>li_id old \<notin> set (map li_id persisted)\<close> pers by metis
    then have 2: "filter (\<lambda>a. cda_line_item_id a = li_id old) new_alts = []"
      by (simp add: filter_empty_conv)
    show ?thesis
      unfolding db_get_cart_draft_alternatives_def alts'
      using 1 2 by (simp del: filter_filter)
  qed
  show ?thesis
    using frame get_lines pers children inv' dropped by blast
qed

lemma db_get_cart_draft_id: "db_get_cart_draft s i = Some e \<Longrightarrow> cd_id e = i"
  by (auto simp: db_get_cart_draft_def find_Some_iff)

lemma db_get_cart_draft_save:
  "db_get_cart_draft s i = Some e \<Longrightarrow> cd_id row = i \<Longrightarrow>
   db_get_cart_draft (save_cart_draft s row) i = Some row"
  unfolding db_get_cart_draft_def save_cart_draft_def
  using find_map_replace[where key = cd_id] by fastforce

lemma cart_draft_assign:
  "(case p of None \<Rightarrow> e | Some v \<Rightarrow> e\<lparr>cd_agent_run_id := Some v\<rparr>) =
     e\<lparr>cd_agent_run_id := (case p of None \<Rightarrow> cd_agent_run_id e | Some v \<Rightarrow> Some v)\<rparr>"
  "(case p of None \<Rightarrow> e | Some v \<Rightarrow> e\<lparr>cd_recipe_id := Some v\<rparr>) =
     e\<lparr>cd_recipe_id := (case p of None \<Rightarrow> cd_recipe_id e | Some v \<Rightarrow> Some v)\<rparr>"
  "(case i of None \<Rightarrow> e | Some v \<Rightarrow> e\<lparr>cd_servings := Some v\<rparr>) =
     e\<lparr>cd_servings := (case i of None \<Rightarrow> cd_servings e | Some v \<Rightarrow> Some v)\<rparr>"
  "(case j of None \<Rightarrow> e | Some v \<Rightarrow> e\<lparr>cd_pantry_items_removed := Some v\<rparr>) =
     e\<lparr>cd_pantry_items_removed := (case j of None \<Rightarrow> cd_pantry_items_removed e | Some v \<Rightarrow> Some v)\<rparr>"
  "(case j of None \<Rightarrow> e | Some v \<Rightarrow> e\<lparr>cd_policies := Some v\<rparr>) =
     e\<lparr>cd_policies := (case j of None \<Rightarrow> cd_policies e | Some v \<Rightarrow> Some v)\<rparr>"
  "(case j of None \<Rightarrow> e | Some v \<Rightarrow> e\<lparr>cd_quote_summary := Some v\<rparr>) =
     e\<lparr>cd_quote_summary := (case j of None \<Rightarrow> cd_quote_summary e | Some v \<Rightarrow> Some v)\<rparr>"
  "(case p of None \<Rightarrow> e | Some v \<Rightarrow> e\<lparr>cd_checkout_session_id := Some v\<rparr>) =
     e\<lparr>cd_checkout_session_id := (case p of None \<Rightarrow> cd_checkout_session_id e | Some v \<Rightarrow> Some v)\<rparr>"
  "(case p of None \<Rightarrow> e | Some v \<Rightarrow> e\<lparr>cd_cart_hash := Some v\<rparr>) =
     e\<lparr>cd_cart_hash := (case p of None \<Rightarrow> cd_cart_hash e | Some v \<Rightarrow> Some v)\<rparr>"
  "(case p of None \<Rightarrow> e | Some v \<Rightarrow> e\<lparr>cd_quote_hash := Some v\<rparr>) =
     e\<lparr>cd_quote_hash := (case p of None \<Rightarrow> cd_quote_hash e | Some v \<Rightarrow> Some v)\<rparr>"
  by (simp_all split: option.splits)

lemma fold_alternatives_map:
  "fold (\<lambda>line m. m(key line \<mapsto> f (key line))) ls m0 k
     = (if k \<in> set (map key ls) then Some (f k) else m0 k)"
  by (induction ls arbitrary: m0) auto

lemma read_cart_draft_eq:
  "read_cart_draft session row cid =
     (row, map (\<lambda>l. (l, db_get_cart_draft_alternatives session (li_id l)))
             (db_get_cart_draft_line_items session cid))"
  unfolding read_cart_draft_def Let_def
  by (simp add: fold_alternatives_map[where key = li_id])

lemma replace_cart_line_items_frame:
  assumes "replace_cart_line_items uuid4 session n cid lines = Inr (session', n', persisted)"
  shows "agent_runs session' = agent_runs session \<and> cart_drafts session' = cart_drafts session"
proof -
  from assms obtain base where
    "add_line_items uuid4 cid lines base n [] = Inr (session', n', persisted)"
    "agent_runs base = agent_runs session" "cart_drafts base = cart_drafts session"
    by (auto simp: replace_cart_line_items_def Let_def db_delete_cart_draft_line_items_def
          split: if_splits)
  then show ?thesis
    using add_line_items_Inr[of uuid4 cid lines base n "[]" session' n' persisted] by simp
qed

lemma update_cart_draft_existing:
  assumes "db_get_cart_draft session i = Some e"
  shows "update_cart_draft now_iso i payload session =
           (save_cart_draft session (merge_patch_cart_draft now_iso payload e),
            Inr (read_cart_draft (save_cart_draft session (merge_patch_cart_draft now_iso payload e))
                   (merge_patch_cart_draft now_iso payload e) i))"
proof -
  let ?r = "merge_patch_cart_draft now_iso payload e"
  have id': "cd_id ?r = i"
    using db_get_cart_draft_id[OF assms] by (simp add: merge_patch_cart_draft_def)
  have g: "db_get_cart_draft (save_cart_draft session ?r) i = Some ?r"
    using assms id' by (rule db_get_cart_draft_save)
  have chain: "update_cart_draft now_iso i payload session =
      (let existing = ?r;
           committed = save_cart_draft session existing
       in case refresh_cart_draft committed (cd_id existing) of
            Inl err \<Rightarrow> (committed, Inl err)
          | Inr existing \<Rightarrow> (committed, Inr (read_cart_draft committed existing i)))"
    by (simp add: update_cart_draft_def assms Let_def cart_draft_assign merge_patch_cart_draft_def
          cong: option.case_cong sum.case_cong)
  show ?thesis
    unfolding chain by (simp add: Let_def id' g refresh_cart_draft_def)
qed


lemma upsert_cart_draft_existing:
  assumes "db_get_cart_draft session (py_or (cdp_id (up_cart payload)) (uuid4 0)) = Some e"
  shows "upsert_cart_draft uuid4 now_iso payload session =
     (case replace_cart_line_items uuid4
             (save_cart_draft session (merge_patch_cart_draft now_iso (up_cart payload) e))
             (if falsy (cdp_id (up_cart payload)) then 1 else 0)
             (py_or (cdp_id (up_cart payload)) (uuid4 0)) (up_line_items payload) of
        Inl err \<Rightarrow> (session, Inl err)
      | Inr (committed, n', persisted) \<Rightarrow>
          (committed,
           Inr (read_cart_draft committed (merge_patch_cart_draft now_iso (up_cart payload) e)
                  (py_or (cdp_id (up_cart payload)) (uuid4 0)))))"
proof -
  let ?cid = "py_or (cdp_id (up_cart payload)) (uuid4 0)"
  let ?n = "if falsy (cdp_id (up_cart payload)) then 1 else 0 :: nat"
  let ?r = "merge_patch_cart_draft now_iso (up_cart payload) e"
  have id': "cd_id ?r = ?cid"
    using db_get_cart_draft_id[OF assms] by (simp add: merge_patch_cart_draft_def)
  have g: "db_get_cart_draft (save_cart_draft session ?r) ?cid = Some ?r"
    using assms id' by (rule db_get_cart_draft_save)
  have chain: "upsert_cart_draft uuid4 now_iso payload session =
      (case replace_cart_line_items uuid4 (save_cart_draft session ?r) ?n ?cid
              (up_line_items payload) of
         Inl err \<Rightarrow> (session, Inl err)
       | Inr (committed, n', persisted) \<Rightarrow>
           (case refresh_cart_draft committed (cd_id ?r) of
              Inl err \<Rightarrow> (committed, Inl err)
            | Inr existing \<Rightarrow> (committed, Inr (read_cart_draft committed existing ?cid))))"
    by (simp add: upsert_cart_draft_def assms Let_def cart_draft_assign merge_patch_cart_draft_def
          cong: option.case_cong sum.case_cong prod.case_cong)
  have refresh: "refresh_cart_draft committed (cd_id ?r) = Inr ?r"
    if "replace_cart_line_items uuid4 (save_cart_draft session ?r) ?n ?cid (up_line_items payload)
          = Inr (committed, n', persisted)" for committed n' persisted
  proof -
    have "cart_drafts committed = cart_drafts (save_cart_draft session ?r)"
      using replace_cart_line_items_frame[OF that] by simp
    then have "db_get_cart_draft committed ?cid = Some ?r"
      using g by (simp add: db_get_cart_draft_def)
    then show ?thesis by (simp add: refresh_cart_draft_def id')
  qed
  show ?thesis
  proof (cases "replace_cart_line_items uuid4 (save_cart_draft session ?r) ?n ?cid
                  (up_line_items payload)")
    case (Inl err)
    then show ?thesis unfolding chain by simp
  next
    case (Inr t)
    obtain committed n' persisted where t: "t = (committed, n', persisted)"
      by (cases t) auto
    show ?thesis
      unfolding chain using Inr refresh[of committed n' persisted] by (simp add: t)
  qed
qed

lemma upsert_cart_draft_new:
  assumes "db_get_cart_draft session (py_or (cdp_id (up_cart payload)) (uuid4 0)) = None"
  shows "upsert_cart_draft uuid4 now_iso payload session =
     (case replace_cart_line_items uuid4
             (session\<lparr>cart_drafts := cart_drafts session @
                [created_cart_draft (py_or (cdp_id (up_cart payload)) (uuid4 0)) now_iso
                   (up_cart payload)]\<rparr>)
             (if falsy (cdp_id (up_cart payload)) then 1 else 0)
             (py_or (cdp_id (up_cart payload)) (uuid4 0)) (up_line_items payload) of
        Inl err \<Rightarrow> (session, Inl err)
      | Inr (committed, n', persisted) \<Rightarrow>
          (committed,
           Inr (read_cart_draft committed
                  (created_cart_draft (py_or (cdp_id (up_cart payload)) (uuid4 0)) now_iso
                     (up_cart payload))
                  (py_or (cdp_id (up_cart payload)) (uuid4 0)))))"
proof -
  let ?cid = "py_or (cdp_id (up_cart payload)) (uuid4 0)"
  let ?n = "if falsy (cdp_id (up_cart payload)) then 1 else 0 :: nat"
  let ?r = "created_cart_draft ?cid now_iso (up_cart payload)"
  let ?flushed = "session\<lparr>cart_drafts := cart_drafts session @ [?r]\<rparr>"
  have id': "cd_id ?r = ?cid"
    by (simp add: created_cart_draft_def)
  have fresh: "cd_id ?r \<notin> set (map cd_id (cart_drafts session))"
    using assms unfolding id' by (simp add: db_get_cart_draft_def find_None_ids)
  have add: "add_cart_draft session ?r = Inr ?flushed"
    using fresh by (simp add: add_cart_draft_def)
  have g: "db_get_cart_draft ?flushed ?cid = Some ?r"
    using assms by (simp add: db_get_cart_draft_def find_append_new id')
  have chain: "upsert_cart_draft uuid4 now_iso payload session =
      (case add_cart_draft session ?r of
         Inl err \<Rightarrow> (session, Inl err)
       | Inr flushed \<Rightarrow>
          (case replace_cart_line_items uuid4 flushed ?n ?cid (up_line_items payload) of
             Inl err \<Rightarrow> (session, Inl err)
           | Inr (committed, n', persisted) \<Rightarrow>
               (case refresh_cart_draft committed (cd_id ?r) of
                  Inl err \<Rightarrow> (committed, Inl err)
                | Inr existing \<Rightarrow> (committed, Inr (read_cart_draft committed existing ?cid)))))"
    by (simp add: upsert_cart_draft_def assms Let_def created_cart_draft_def
          cong: option.case_cong sum.case_cong prod.case_cong)
  have refresh: "refresh_cart_draft committed (cd_id ?r) = Inr ?r"
    if "replace_cart_line_items uuid4 ?flushed ?n ?cid (up_line_items payload)
          = Inr (committed, n', persisted)" for committed n' persisted
  proof -
    have "cart_drafts committed = cart_drafts ?flushed"
      using replace_cart_line_items_frame[OF that] by simp
    then have "db_get_cart_draft committed ?cid = Some ?r"
      using g by (simp add: db_get_cart_draft_def)
    then show ?thesis by (simp add: refresh_cart_draft_def id')
  qed
  show ?thesis
  proof (cases "replace_cart_line_items uuid4 ?flushed ?n ?cid (up_line_items payload)")
    case (Inl err)
    then show ?thesis unfolding chain add by simp
  next
    case (Inr t)
    obtain committed n' persisted where t: "t = (committed, n', persisted)"
      by (cases t) auto
    show ?thesis
      unfolding chain add using Inr refresh[of committed n' persisted] by (simp add: t)
  qed
qed

lemma upsert_cart_draft_outcome:
  obtains base row where
    "cart_draft_line_items base = cart_draft_line_items session"
    and "cart_draft_alternatives base = cart_draft_alternatives session"
    and "agent_runs base = agent_runs session"
    and "cd_id row = py_or (cdp_id (up_cart payload)) (uuid4 0)"
    and "db_get_cart_draft base (py_or (cdp_id (up_cart payload)) (uuid4 0)) = Some row"
    and "case db_get_cart_draft session (py_or (cdp_id (up_cart payload)) (uuid4 0)) of
           None \<Rightarrow> row = created_cart_draft (py_or (cdp_id (up_cart payload)) (uuid4 0))
                          now_iso (up_cart payload)
                  \<and> cart_drafts base = cart_drafts session @ [row]
         | Some e \<Rightarrow> row = merge_patch_cart_draft now_iso (up_cart payload) e
                  \<and> base = save_cart_draft session row"
    and "upsert_cart_draft uuid4 now_iso payload session =
      (case replace_cart_line_items uuid4 base
              (if falsy (cdp_id (up_cart payload)) then 1 else 0)
              (py_or (cdp_id (up_cart payload)) (uuid4 0)) (up_line_items payload) of
         Inl err \<Rightarrow> (session, Inl err)
       | Inr (committed, n', persisted) \<Rightarrow>
           (committed,
            Inr (read_cart_draft committed row (py_or (cdp_id (up_cart payload)) (uuid4 0)))))"
proof (cases "db_get_cart_draft session (py_or (cdp_id (up_cart payload)) (uuid4 0))")
  case None
  let ?cid = "py_or (cdp_id (up_cart payload)) (uuid4 0)"
  let ?r = "created_cart_draft ?cid now_iso (up_cart payload)"
  let ?b = "session\<lparr>cart_drafts := cart_drafts session @ [?r]\<rparr>"
  have "db_get_cart_draft ?b ?cid = Some ?r"
    using None by (simp add: db_get_cart_draft_def find_append_new created_cart_draft_def)
  then show ?thesis
    using that[of ?b ?r] upsert_cart_draft_new[of session payload uuid4 now_iso, OF None] None
    by (simp add: created_cart_draft_def)
next
  case (Some e)
  let ?cid = "py_or (cdp_id (up_cart payload)) (uuid4 0)"
  let ?r = "merge_patch_cart_draft now_iso (up_cart payload) e"
  let ?b = "save_cart_draft session ?r"
  have id': "cd_id ?r = ?cid"
    using db_get_cart_draft_id[OF Some] by (simp add: merge_patch_cart_draft_def)
  have "db_get_cart_draft ?b ?cid = Some ?r"
    using Some id' by (rule db_get_cart_draft_save)
  then show ?thesis
    using that[of ?b ?r] upsert_cart_draft_existing[of session payload uuid4 e now_iso, OF Some]
      id' Some
    by (simp add: save_cart_draft_def)
qed

lemma upsert_cart_draft_keeps_references:
  assumes "alternatives_reference_line_items session"
  shows "alternatives_reference_line_items (fst (upsert_cart_draft uuid4 now_iso payload session))"
proof -
  let ?cid = "py_or (cdp_id (up_cart payload)) (uuid4 0)"
  let ?n = "if falsy (cdp_id (up_cart payload)) then 1 else 0 :: nat"
  obtain base row where
    base: "cart_draft_line_items base = cart_draft_line_items session"
      "cart_draft_alternatives base = cart_draft_alternatives session"
    and up: "upsert_cart_draft uuid4 now_iso payload session =
      (case replace_cart_line_items uuid4 base ?n ?cid (up_line_items payload) of
         Inl err \<Rightarrow> (session, Inl err)
       | Inr (committed, n', persisted) \<Rightarrow>
           (committed, Inr (read_cart_draft committed row ?cid)))"
    by (rule upsert_cart_draft_outcome
          [where session = session and payload = payload and ?uuid4.0 = uuid4 and now_iso = now_iso])
       blast
  have inv_base: "alternatives_reference_line_items base"
    using assms by (simp add: alternatives_reference_line_items_def base)
  show ?thesis
  proof (cases "replace_cart_line_items uuid4 base ?n ?cid (up_line_items payload)")
    case (Inl err)
    then show ?thesis unfolding up using assms by simp
  next
    case (Inr t)
    obtain committed n' persisted where t: "t = (committed, n', persisted)"
      by (cases t) auto
    show ?thesis
      unfolding up using replace_cart_line_items_Inr[OF Inr[unfolded t] inv_base]
      by (simp add: Inr t)
  qed
qed

lemma other_routes_keep_references:
  assumes "alternatives_reference_line_items session"
  shows "alternatives_reference_line_items
           (fst (update_cart_draft now_iso cart_draft_id cart_payload session))
       \<and> alternatives_reference_line_items
           (fst (upsert_agent_run uuid4 now_iso payload session))
       \<and> alternatives_reference_line_items
           (fst (update_agent_run now_iso agent_run_id payload session))"
proof -
  have 1: "alternatives_reference_line_items
             (fst (update_cart_draft now_iso cart_draft_id cart_payload session))"
  proof (cases "db_get_cart_draft session cart_draft_id")
    case None
    then show ?thesis using assms by (simp add: update_cart_draft_def)
  next
    case (Some e)
    show ?thesis
      using assms unfolding update_cart_draft_existing[OF Some]
      by (simp add: alternatives_reference_line_items_def save_cart_draft_def)
  qed
  have 2: "alternatives_reference_line_items
             (fst (upsert_agent_run uuid4 now_iso payload session))"
  proof (cases "db_get_agent_run session (py_or (arp_id payload) uuid4)")
    case None
    show ?thesis
      using assms unfolding upsert_agent_run_new[OF None]
      by (simp add: alternatives_reference_line_items_def)
  next
    case (Some e)
    show ?thesis
      using assms unfolding upsert_agent_run_existing[OF Some]
      by (simp add: alternatives_reference_line_items_def save_agent_run_def)
  qed
  have 3: "alternatives_reference_line_items
             (fst (update_agent_run now_iso agent_run_id payload session))"
  proof (cases "db_get_agent_run session agent_run_id")
    case None
    then show ?thesis using assms by (simp add: update_agent_run_def)
  next
    case (Some e)
    show ?thesis
      using assms unfolding update_agent_run_existing[OF Some]
      by (simp add: alternatives_reference_line_items_def save_agent_run_def)
  qed
  show ?thesis using 1 2 3 by simp
qed

lemma empty_store_references: "alternatives_reference_line_items empty_store"
  by (simp add: alternatives_reference_line_items_def empty_store_def)


text \<open>
  Claim C1. When \<open>upsert_cart_draft\<close> returns, on the create and on the update path
  alike, the stored line items of the draft are exactly the rows of the supplied line
  items, and the stored alternatives of each are exactly the rows of the alternatives
  supplied for it; a line item that the draft had before and that is not among the new
  ones has no alternatives left; the response lists what is stored. The store is assumed
  to satisfy what every store written by these routes satisfies: each alternative
  belongs to a stored line item.
\<close>

theorem upsert_cart_draft_replaces_children:
  assumes "upsert_cart_draft uuid4 now_iso payload session = (session', Inr response)"
    and "alternatives_reference_line_items session"
  shows "cd_id (fst response) = py_or (cdp_id (up_cart payload)) (uuid4 0)
       \<and> db_get_cart_draft session' (cd_id (fst response)) = Some (fst response)
       \<and> children_are session' (cd_id (fst response)) (up_line_items payload)
       \<and> (\<forall>old \<in> set (db_get_cart_draft_line_items session (cd_id (fst response))).
             li_id old \<notin> set (map li_id (db_get_cart_draft_line_items session' (cd_id (fst response))))
             \<longrightarrow> db_get_cart_draft_alternatives session' (li_id old) = [])
       \<and> snd response =
             map (\<lambda>row. (row, db_get_cart_draft_alternatives session' (li_id row)))
               (db_get_cart_draft_line_items session' (cd_id (fst response)))
       \<and> alternatives_reference_line_items session'"
proof -
  let ?cid = "py_or (cdp_id (up_cart payload)) (uuid4 0)"
  let ?n = "if falsy (cdp_id (up_cart payload)) then 1 else 0 :: nat"
  obtain base row where
    base_lines: "cart_draft_line_items base = cart_draft_line_items session"
    and base_alts: "cart_draft_alternatives base = cart_draft_alternatives session"
    and row_id: "cd_id row = ?cid"
    and base_row: "db_get_cart_draft base ?cid = Some row"
    and up: "upsert_cart_draft uuid4 now_iso payload session =
      (case replace_cart_line_items uuid4 base ?n ?cid (up_line_items payload) of
         Inl err \<Rightarrow> (session, Inl err)
       | Inr (committed, n', persisted) \<Rightarrow>
           (committed, Inr (read_cart_draft committed row ?cid)))"
    by (rule upsert_cart_draft_outcome
          [where session = session and payload = payload and ?uuid4.0 = uuid4 and now_iso = now_iso])
       blast
  from assms(1)[unfolded up] obtain n' persisted where
    run: "replace_cart_line_items uuid4 base ?n ?cid (up_line_items payload)
            = Inr (session', n', persisted)"
    and resp: "response = read_cart_draft session' row ?cid"
    by (auto split: sum.splits)
  have inv_base: "alternatives_reference_line_items base"
    using assms(2) by (simp add: alternatives_reference_line_items_def base_lines base_alts)
  have old_lines: "db_get_cart_draft_line_items base ?cid = db_get_cart_draft_line_items session ?cid"
    by (simp add: db_get_cart_draft_line_items_def base_lines)
  note main = replace_cart_line_items_Inr[OF run inv_base, unfolded old_lines]
  have fst_resp: "fst response = row"
    by (simp add: resp read_cart_draft_eq)
  have "db_get_cart_draft session' ?cid = Some row"
    using main base_row by (simp add: db_get_cart_draft_def)
  then show ?thesis
    using main unfolding fst_resp row_id
    by (simp add: resp read_cart_draft_eq)
qed

lemma example_create:
  "upsert_cart_draft example_uuid4 ''2026-01-01T00:00:00+00:00'' request_c0 empty_store
     = (store_c1,
        Inr (cart_c1,
             [(line_row ''l1'' ''c1'' ''flour'', [alternative_row ''a1'' ''l1'' 1]),
              (line_row ''l2'' ''c1'' ''eggs'', [])]))"
  by code_simp

lemma example_upsert:
  "upsert_cart_draft example_uuid4 ''2026-02-02T00:00:00+00:00'' request_c1 store_c1
     = (store_c2, Inr response_c2)"
  by code_simp

theorem upsert_cart_draft_replaces_children_witness:
  "upsert_cart_draft example_uuid4 ''2026-02-02T00:00:00+00:00'' request_c1 store_c1
     = (store_c2, Inr response_c2)
   \<and> alternatives_reference_line_items store_c1
   \<and> children_are store_c2 ''c1'' (up_line_items request_c1)
   \<and> map li_id (db_get_cart_draft_line_items store_c1 ''c1'') = [''l1'', ''l2'']
   \<and> map li_id (db_get_cart_draft_line_items store_c2 ''c1'') = [''l2'']
   \<and> db_get_cart_draft_alternatives store_c1 ''l1'' = [alternative_row ''a1'' ''l1'' 1]
   \<and> db_get_cart_draft_alternatives store_c2 ''l1'' = []"
proof -
  have inv: "alternatives_reference_line_items store_c1"
    by (simp add: alternatives_reference_line_items_def store_c1_def line_row_def
          alternative_row_def)
  have cid: "cd_id (fst response_c2) = ''c1''"
    by (simp add: response_c2_def cart_c1_def created_cart_draft_def)
  have before: "db_get_cart_draft_line_items store_c1 ''c1''
                  = [line_row ''l1'' ''c1'' ''flour'', line_row ''l2'' ''c1'' ''eggs'']"
    by (simp add: db_get_cart_draft_line_items_def store_c1_def line_row_def)
  have after: "db_get_cart_draft_line_items store_c2 ''c1'' = [line_row ''l2'' ''c1'' ''eggs'']"
    by (simp add: db_get_cart_draft_line_items_def store_c2_def line_row_def)
  have alts_before: "db_get_cart_draft_alternatives store_c1 ''l1'' = [alternative_row ''a1'' ''l1'' 1]"
    by (simp add: db_get_cart_draft_alternatives_def store_c1_def alternative_row_def)
  note main = upsert_cart_draft_replaces_children[OF example_upsert inv]
  have "children_are store_c2 (cd_id (fst response_c2)) (up_line_items request_c1)"
    using main by blast
  then have "children_are store_c2 ''c1'' (up_line_items request_c1)"
    unfolding cid .
  moreover have "\<forall>old \<in> set (db_get_cart_draft_line_items store_c1 (cd_id (fst response_c2))).
      li_id old \<notin> set (map li_id (db_get_cart_draft_line_items store_c2 (cd_id (fst response_c2))))
      \<longrightarrow> db_get_cart_draft_alternatives store_c2 (li_id old) = []"
    using main by blast
  then have "db_get_cart_draft_alternatives store_c2 ''l1'' = []"
    unfolding cid before after by (simp add: line_row_def)
  ultimately show ?thesis
    using example_upsert inv before after alts_before by (simp add: line_row_def)
qed

text \<open>
  Claim C7. A GET or a PATCH that addresses an agent run id or a cart draft id under
  which no row is stored raises \<open>HTTPException\<close> with status 404 and leaves the store as
  it was given.
\<close>

theorem unknown_id_not_found:
  "(agent_run_id \<notin> set (map ar_id (agent_runs session)) \<longrightarrow>
      get_agent_run agent_run_id session
        = (session, Inl (HTTPException 404 ''Agent run not found.''))
      \<and> update_agent_run now_iso agent_run_id payload session
        = (session, Inl (HTTPException 404 ''Agent run not found.'')))
   \<and> (cart_draft_id \<notin> set (map cd_id (cart_drafts session)) \<longrightarrow>
      get_cart_draft cart_draft_id session
        = (session, Inl (HTTPException 404 ''Cart draft not found.''))
      \<and> update_cart_draft now_iso cart_draft_id cart_payload session
        = (session, Inl (HTTPException 404 ''Cart draft not found.'')))"
proof -
  have a: "db_get_agent_run session agent_run_id = None"
    if "agent_run_id \<notin> set (map ar_id (agent_runs session))"
    using that by (simp add: db_get_agent_run_def find_None_ids)
  have c: "db_get_cart_draft session cart_draft_id = None"
    if "cart_draft_id \<notin> set (map cd_id (cart_drafts session))"
    using that by (simp add: db_get_cart_draft_def find_None_ids)
  show ?thesis
    using a c
    by (auto simp: get_agent_run_def update_agent_run_def get_cart_draft_def
          update_cart_draft_def simp del: set_map)
qed

theorem unknown_id_not_found_witness:
  "''zz'' \<notin> set (map ar_id (agent_runs store_a1))
   \<and> ''zz'' \<notin> set (map cd_id (cart_drafts store_a1))
   \<and> get_agent_run ''zz'' store_a1 = (store_a1, Inl (HTTPException 404 ''Agent run not found.''))
   \<and> update_agent_run ''2026-02-02T00:00:00+00:00'' ''zz'' (no_fields\<lparr>arp_state := Some FAILED\<rparr>)
         store_a1
       = (store_a1, Inl (HTTPException 404 ''Agent run not found.''))
   \<and> get_cart_draft ''zz'' store_a1 = (store_a1, Inl (HTTPException 404 ''Cart draft not found.''))
   \<and> update_cart_draft ''2026-02-02T00:00:00+00:00'' ''zz'' no_cart_fields store_a1
       = (store_a1, Inl (HTTPException 404 ''Cart draft not found.''))"
proof -
  have h1: "''zz'' \<notin> set (map ar_id (agent_runs store_a1))"
    by (simp add: store_a1_def empty_store_def run_a1_def)
  have h2: "''zz'' \<notin> set (map cd_id (cart_drafts store_a1))"
    by (simp add: store_a1_def empty_store_def)
  show ?thesis
    using unknown_id_not_found
            [of "''zz''" store_a1 "''2026-02-02T00:00:00+00:00''"
                "no_fields\<lparr>arp_state := Some FAILED\<rparr>" "''zz''" no_cart_fields] h1 h2
    by blast
qed

section \<open>POST with the id of a stored record\<close>












end
